theory Spec2Isabelle
  imports Main "HOL-Library.Char_ord"
begin

section \<open>Values, variables and errors\<close>

text \<open>
  The interpreter's runtime values (\<^verbatim>\<open>VoidValue\<close>) are host numbers, strings, booleans,
  \<^verbatim>\<open>null\<close>, arrays and \<^verbatim>\<open>VoidDict\<close> objects. Arrays and dicts are host objects
  with identity: a value only carries their address, the contents live in the store below.
  A \<^typ>\<open>char\<close> stands for one UTF-16 code unit below 256. Numbers are modelled on the
  whole-number fragment: a \<^verbatim>\<open>VNum n\<close> is the double that represents the integer
  \<open>n\<close> exactly (\<open>\<bar>n\<bar> \<le> 2^53\<close>); whatever leaves that fragment ends in the
  outcome \<^verbatim>\<open>Unmodelled\<close>.
\<close>

type_synonym addr = nat

datatype voidvalue =
    VNull
  | VBool bool
  | VNum int
  | VStr string
  | VList addr
  | VDict addr

record variable =
  var_type :: string
  var_value :: voidvalue

text \<open>Every \<^verbatim>\<open>throw new Error("[Runtime Error] ...")\<close> of the interpreter, by message.\<close>

datatype runtime_error =
    AlreadyDefined string
  | NotDefined string
  | UnknownNode string
  | ExpectsList string string
  | ExpectsDict string string
  | ListIndexOutOfRange int nat
  | DictKeyNotFound string
  | StringIndexOutOfRange int nat
  | NotIndexable string
  | UnknownMethod string
  | NotAList string
  | NotADict string
  | MethodArity string string
  | CannotAdd string string
  | DivisionByZero
  | ModuloByZero
  | UnknownOperator string
  | UnknownUnaryOperator string
  | UnknownFunction string
  | RandNotNumbers
  | RandMinGreaterMax
  | WrongArgCount string nat nat
  | CannotConvert string string
  | CannotConvertToNumber string
  | MaxIterationsExceeded

text \<open>
  \<^verbatim>\<open>RangeError\<close> is the host's "Maximum call stack size exceeded" and
  \<^verbatim>\<open>TypeError\<close> its failure on a tree that breaks the declared node types;
  \<^verbatim>\<open>Unmodelled\<close> marks a host operation outside the modelled fragment.
\<close>

datatype error =
    RuntimeError runtime_error
  | RangeError
  | TypeError
  | Unmodelled

section \<open>Environment (scope chain)\<close>

datatype environment =
  Environment (variables: "string \<rightharpoonup> variable") (parent: "environment option")

definition env_define :: "environment \<Rightarrow> string \<Rightarrow> string \<Rightarrow> voidvalue \<Rightarrow> error + environment" where
  "env_define env name ty v =
     (if variables env name \<noteq> None then Inl (RuntimeError (AlreadyDefined name))
      else Inr (Environment ((variables env)(name \<mapsto> \<lparr>var_type = ty, var_value = v\<rparr>)) (parent env)))"

fun env_get :: "environment \<Rightarrow> string \<Rightarrow> error + variable" where
  "env_get (Environment vars par) name =
     (case vars name of
        Some var \<Rightarrow> Inr var
      | None \<Rightarrow>
         (case par of
            Some p \<Rightarrow> env_get p name
          | None \<Rightarrow> Inl (RuntimeError (NotDefined name))))"

fun env_set :: "environment \<Rightarrow> string \<Rightarrow> voidvalue \<Rightarrow> error + environment" where
  "env_set (Environment vars par) name v =
     (case vars name of
        Some var \<Rightarrow> Inr (Environment (vars(name \<mapsto> var\<lparr>var_value := v\<rparr>)) par)
      | None \<Rightarrow>
         (case par of
            Some p \<Rightarrow>
              (case env_set p name v of
                 Inl e \<Rightarrow> Inl e
               | Inr p' \<Rightarrow> Inr (Environment vars (Some p')))
          | None \<Rightarrow> Inl (RuntimeError (NotDefined name))))"

fun env_has :: "environment \<Rightarrow> string \<Rightarrow> bool" where
  "env_has (Environment vars par) name =
     (if vars name \<noteq> None then True
      else (case par of Some p \<Rightarrow> env_has p name | None \<Rightarrow> False))"

text \<open>The scopes of a chain, innermost first (used to state properties only).\<close>

fun chain :: "environment \<Rightarrow> (string \<rightharpoonup> variable) list" where
  "chain (Environment vars par) =
     vars # (case par of Some p \<Rightarrow> chain p | None \<Rightarrow> [])"


section \<open>The store of arrays and dicts\<close>

text \<open>
  \<^verbatim>\<open>interface VoidDict { __isDict: true; keys: VoidValue[]; values: VoidValue[] }\<close>:
  two parallel arrays. The store maps the address of every array and of every dict to its
  current contents; \<^verbatim>\<open>next_addr\<close> is the next unused address.
\<close>

record voiddict =
  dict_keys :: "voidvalue list"
  dict_values :: "voidvalue list"

record heap =
  lists :: "addr \<Rightarrow> voidvalue list"
  dicts :: "addr \<Rightarrow> voiddict"
  next_addr :: addr

definition createVoidDict :: voiddict where
  "createVoidDict = \<lparr>dict_keys = [], dict_values = []\<rparr>"

definition empty_heap :: heap where
  "empty_heap = \<lparr>lists = (\<lambda>_. []), dicts = (\<lambda>_. createVoidDict), next_addr = 0\<rparr>"

definition alloc_list :: "voidvalue list \<Rightarrow> heap \<Rightarrow> voidvalue \<times> heap" where
  "alloc_list xs h =
     (VList (next_addr h), h\<lparr>lists := (lists h)(next_addr h := xs), next_addr := Suc (next_addr h)\<rparr>)"

definition alloc_dict :: "voiddict \<Rightarrow> heap \<Rightarrow> voidvalue \<times> heap" where
  "alloc_dict d h =
     (VDict (next_addr h), h\<lparr>dicts := (dicts h)(next_addr h := d), next_addr := Suc (next_addr h)\<rparr>)"

section \<open>Host functions on numbers and strings\<close>

text \<open>The outcome of a host conversion to number, on the whole-number fragment.\<close>

datatype hostnum = Whole int | NaN | OtherNumber

definition max_safe :: int where
  "max_safe = 9007199254740992"

definition whole :: "int \<Rightarrow> hostnum" where
  "whole n = (if \<bar>n\<bar> \<le> max_safe then Whole n else OtherNumber)"

definition isDigit :: "char \<Rightarrow> bool" where
  "isDigit ch \<longleftrightarrow> ch \<ge> CHR ''0'' \<and> ch \<le> CHR ''9''"

definition isAlpha :: "char \<Rightarrow> bool" where
  "isAlpha ch \<longleftrightarrow>
     (ch \<ge> CHR ''a'' \<and> ch \<le> CHR ''z'') \<or> (ch \<ge> CHR ''A'' \<and> ch \<le> CHR ''Z'') \<or> ch = CHR ''_''"

definition isAlphaNumeric :: "char \<Rightarrow> bool" where
  "isAlphaNumeric ch \<longleftrightarrow> isAlpha ch \<or> isDigit ch"

definition digit_char :: "nat \<Rightarrow> char" where
  "digit_char d = ''0123456789'' ! d"

definition digit_val :: "char \<Rightarrow> nat" where
  "digit_val ch = of_char ch - 48"

text \<open>\<^verbatim>\<open>String(n)\<close> of a whole number below \<open>10^21\<close>: its decimal digits.\<close>

fun nat_digits :: "nat \<Rightarrow> string" where
  "nat_digits n = (if n < 10 then [digit_char n] else nat_digits (n div 10) @ [digit_char (n mod 10)])"

declare nat_digits.simps [simp del]

definition number_to_string :: "int \<Rightarrow> string" where
  "number_to_string n = (if n < 0 then CHR ''-'' # nat_digits (nat (- n)) else nat_digits (nat n))"

text \<open>The value of a run of decimal digits, most significant first.\<close>

fun digits_value :: "nat \<Rightarrow> string \<Rightarrow> nat" where
  "digits_value acc [] = acc"
| "digits_value acc (c # cs) = digits_value (acc * 10 + digit_val c) cs"

text \<open>
  White space as \<^verbatim>\<open>trim\<close>, \<^verbatim>\<open>Number\<close>, \<^verbatim>\<open>parseInt\<close> and \<^verbatim>\<open>parseFloat\<close> strip it:
  TAB, LF, VT, FF, CR, SP and NBSP are the white-space code units below 256.
\<close>

definition isWhiteSpace :: "char \<Rightarrow> bool" where
  "isWhiteSpace ch \<longleftrightarrow> (of_char ch :: nat) \<in> {9, 10, 11, 12, 13, 32, 160}"

definition trim_string :: "string \<Rightarrow> string" where
  "trim_string s = rev (dropWhile isWhiteSpace (rev (dropWhile isWhiteSpace s)))"

text \<open>
  \<^verbatim>\<open>Number(s)\<close> for a string: white space is trimmed, the empty string is 0, an optionally
  signed run of decimal digits is that integer. A numeric literal holds a digit or is a
  signed \<^verbatim>\<open>Infinity\<close>, so every other string without a digit is \<^verbatim>\<open>NaN\<close>. The
  remaining strings (fractions, exponents, radix prefixes, malformed text with digits)
  are outside the fragment.
\<close>

definition unsigned_digits :: "string \<Rightarrow> bool" where
  "unsigned_digits s \<longleftrightarrow> s \<noteq> [] \<and> list_all isDigit s"

definition string_to_number :: "string \<Rightarrow> hostnum" where
  "string_to_number s =
     (let t = trim_string s in
      if t = [] then Whole 0
      else if unsigned_digits t then whole (int (digits_value 0 t))
      else if hd t = CHR ''+'' \<and> unsigned_digits (tl t) then whole (int (digits_value 0 (tl t)))
      else if hd t = CHR ''-'' \<and> unsigned_digits (tl t) then whole (- int (digits_value 0 (tl t)))
      else if \<not> list_ex isDigit t \<and> t \<notin> {''Infinity'', ''+Infinity'', ''-Infinity''} then NaN
      else OtherNumber)"

text \<open>
  \<^verbatim>\<open>parseInt(s, 10)\<close>: leading white space and one sign are skipped, then the longest run of
  digits is read; no digit gives \<^verbatim>\<open>NaN\<close>.
\<close>

definition parseInt :: "string \<Rightarrow> hostnum" where
  "parseInt s =
     (let t = dropWhile isWhiteSpace s;
          neg = (t \<noteq> [] \<and> hd t = CHR ''-'');
          u = (if t \<noteq> [] \<and> (hd t = CHR ''+'' \<or> hd t = CHR ''-'') then tl t else t);
          ds = takeWhile isDigit u
      in if ds = [] then NaN
         else whole (if neg then - int (digits_value 0 ds) else int (digits_value 0 ds)))"

text \<open>
  \<^verbatim>\<open>parseFloat(s)\<close>: as \<^verbatim>\<open>parseInt\<close> when the run of digits is not continued by a
  fraction or an exponent; a string that starts no number is \<^verbatim>\<open>NaN\<close>.
\<close>

definition parseFloat :: "string \<Rightarrow> hostnum" where
  "parseFloat s =
     (let t = dropWhile isWhiteSpace s;
          neg = (t \<noteq> [] \<and> hd t = CHR ''-'');
          u = (if t \<noteq> [] \<and> (hd t = CHR ''+'' \<or> hd t = CHR ''-'') then tl t else t);
          ds = takeWhile isDigit u;
          r = dropWhile isDigit u
      in if ds = [] then
           (if r \<noteq> [] \<and> (hd r = CHR ''.'' \<or> hd r = CHR ''I'') then OtherNumber else NaN)
         else if r \<noteq> [] \<and> hd r \<in> {CHR ''.'', CHR ''e'', CHR ''E''} then OtherNumber
         else whole (if neg then - int (digits_value 0 ds) else int (digits_value 0 ds)))"

definition join_with :: "string \<Rightarrow> string list \<Rightarrow> string" where
  "join_with sep items = concat (case items of [] \<Rightarrow> [] | x # xs \<Rightarrow> x # map (\<lambda>y. sep @ y) xs)"

definition js_typeof :: "voidvalue \<Rightarrow> string" where
  "js_typeof v =
     (case v of
        VNull \<Rightarrow> ''object''
      | VBool _ \<Rightarrow> ''boolean''
      | VNum _ \<Rightarrow> ''number''
      | VStr _ \<Rightarrow> ''string''
      | VList _ \<Rightarrow> ''object''
      | VDict _ \<Rightarrow> ''object'')"

text \<open>
  \<^verbatim>\<open>String(v)\<close>, the host conversion behind \<^verbatim>\<open>toInt\<close>, \<^verbatim>\<open>length\<close>, \<^verbatim>\<open>upper\<close>
  and the other string built-ins. An array is joined by the host with its own rules; that
  case is outside the fragment.
\<close>

definition host_String :: "voidvalue \<Rightarrow> error + string" where
  "host_String v =
     (case v of
        VNull \<Rightarrow> Inr ''null''
      | VBool b \<Rightarrow> Inr (if b then ''true'' else ''false'')
      | VNum n \<Rightarrow> Inr (number_to_string n)
      | VStr s \<Rightarrow> Inr s
      | VList _ \<Rightarrow> Inl Unmodelled
      | VDict _ \<Rightarrow> Inr ''[object Object]'')"

section \<open>Helper methods of the interpreter\<close>

text \<open>
  The host bounds the depth of recursion; \<^verbatim>\<open>stringify\<close> on an array that holds itself
  recurses until the host raises \<^verbatim>\<open>RangeError\<close>. The first argument is the number of
  stack frames left.
\<close>

definition host_stack_depth :: nat where
  "host_stack_depth = 10000"

fun stringify_at :: "nat \<Rightarrow> heap \<Rightarrow> voidvalue \<Rightarrow> error + string"
and stringify_items :: "nat \<Rightarrow> heap \<Rightarrow> voidvalue list \<Rightarrow> error + string list"
and stringify_entries :: "nat \<Rightarrow> heap \<Rightarrow> voidvalue list \<Rightarrow> voidvalue list \<Rightarrow> error + string list"
where
  "stringify_at d h v =
     (if d = 0 then Inl RangeError
      else (case v of
              VNull \<Rightarrow> Inr ''null''
            | VBool b \<Rightarrow> Inr (if b then ''true'' else ''false'')
            | VList a \<Rightarrow>
                (case stringify_items (d - 1) h (lists h a) of
                   Inl e \<Rightarrow> Inl e
                 | Inr items \<Rightarrow> Inr (''['' @ join_with '', '' items @ '']''))
            | VDict a \<Rightarrow>
                (case stringify_entries (d - 1) h (dict_keys (dicts h a)) (dict_values (dicts h a)) of
                   Inl e \<Rightarrow> Inl e
                 | Inr entries \<Rightarrow> Inr (''{'' @ join_with '', '' entries @ ''}''))
            | VNum n \<Rightarrow> Inr (number_to_string n)
            | VStr s \<Rightarrow> Inr s))"
| "stringify_items d h [] = Inr []"
| "stringify_items d h (v # vs) =
     (case stringify_at d h v of
        Inl e \<Rightarrow> Inl e
      | Inr s \<Rightarrow>
         (case stringify_items d h vs of
            Inl e \<Rightarrow> Inl e
          | Inr ss \<Rightarrow> Inr (s # ss)))"
| "stringify_entries d h [] vs = Inr []"
| "stringify_entries d h (k # ks) vs =
     (case stringify_at d h k of
        Inl e \<Rightarrow> Inl e
      | Inr sk \<Rightarrow>
         (case (case vs of [] \<Rightarrow> Inr ''undefined'' | v # _ \<Rightarrow> stringify_at d h v) of
            Inl e \<Rightarrow> Inl e
          | Inr sv \<Rightarrow>
             (case stringify_entries d h ks (tl vs) of
                Inl e \<Rightarrow> Inl e
              | Inr ss \<Rightarrow> Inr ((sk @ '':'' @ sv) # ss))))"

declare stringify_at.simps [simp del]

definition stringify :: "heap \<Rightarrow> voidvalue \<Rightarrow> error + string" where
  "stringify h v = stringify_at host_stack_depth h v"

definition toNumber :: "voidvalue \<Rightarrow> error + int" where
  "toNumber v =
     (case v of
        VNum n \<Rightarrow> Inr n
      | VStr s \<Rightarrow>
         (case string_to_number s of
            NaN \<Rightarrow> Inl (RuntimeError (CannotConvertToNumber s))
          | Whole n \<Rightarrow> Inr n
          | OtherNumber \<Rightarrow> Inl Unmodelled)
      | VBool b \<Rightarrow> Inr (if b then 1 else 0)
      | _ \<Rightarrow> Inr 0)"

definition isTruthy :: "heap \<Rightarrow> voidvalue \<Rightarrow> bool" where
  "isTruthy h v =
     (case v of
        VNull \<Rightarrow> False
      | VBool b \<Rightarrow> b
      | VNum n \<Rightarrow> n \<noteq> 0
      | VStr s \<Rightarrow> length s > 0
      | VList a \<Rightarrow> length (lists h a) > 0
      | VDict a \<Rightarrow> length (dict_keys (dicts h a)) > 0)"

text \<open>
  \<^verbatim>\<open>areEqual\<close>: operands of one \<^verbatim>\<open>typeof\<close> are compared with \<^verbatim>\<open>===\<close> (objects by
  identity; \<^verbatim>\<open>null\<close>, arrays and dicts all have \<^verbatim>\<open>typeof\<close> "object"), a boolean and a
  number as numbers, everything else through \<^verbatim>\<open>stringify\<close>.
\<close>

definition areEqual :: "heap \<Rightarrow> voidvalue \<Rightarrow> voidvalue \<Rightarrow> error + bool" where
  "areEqual h left right =
     (if js_typeof left = js_typeof right then Inr (left = right)
      else if (js_typeof left = ''boolean'' \<or> js_typeof left = ''number'') \<and>
              (js_typeof right = ''boolean'' \<or> js_typeof right = ''number'')
      then (case toNumber left of
              Inl e \<Rightarrow> Inl e
            | Inr l \<Rightarrow> (case toNumber right of Inl e \<Rightarrow> Inl e | Inr r \<Rightarrow> Inr (l = r)))
      else (case stringify h left of
              Inl e \<Rightarrow> Inl e
            | Inr l \<Rightarrow> (case stringify h right of Inl e \<Rightarrow> Inl e | Inr r \<Rightarrow> Inr (l = r))))"

text \<open>\<^verbatim>\<open>findDictKey\<close>: the index of the first key equal to \<open>key\<close>, or \<open>-1\<close>.\<close>

fun findDictKey_from :: "heap \<Rightarrow> voidvalue list \<Rightarrow> voidvalue \<Rightarrow> int \<Rightarrow> error + int" where
  "findDictKey_from h [] key i = Inr (- 1)"
| "findDictKey_from h (k # ks) key i =
     (case areEqual h k key of
        Inl e \<Rightarrow> Inl e
      | Inr True \<Rightarrow> Inr i
      | Inr False \<Rightarrow> findDictKey_from h ks key (i + 1))"

definition findDictKey :: "heap \<Rightarrow> voiddict \<Rightarrow> voidvalue \<Rightarrow> error + int" where
  "findDictKey h dict key = findDictKey_from h (dict_keys dict) key 0"

definition expectArgs :: "string \<Rightarrow> voidvalue list \<Rightarrow> nat \<Rightarrow> error + unit" where
  "expectArgs name args expected =
     (if length args \<noteq> expected then Inl (RuntimeError (WrongArgCount name expected (length args)))
      else Inr ())"

text \<open>\<^verbatim>\<open>Number(value)\<close> as \<^verbatim>\<open>castValue\<close> calls it, on any value.\<close>

definition host_Number :: "voidvalue \<Rightarrow> hostnum" where
  "host_Number v =
     (case v of
        VNull \<Rightarrow> Whole 0
      | VBool b \<Rightarrow> Whole (if b then 1 else 0)
      | VNum n \<Rightarrow> Whole n
      | VStr s \<Rightarrow> string_to_number s
      | VList _ \<Rightarrow> OtherNumber
      | VDict _ \<Rightarrow> NaN)"

definition castValue :: "heap \<Rightarrow> voidvalue \<Rightarrow> string \<Rightarrow> string \<Rightarrow> error + voidvalue" where
  "castValue h v ty varName =
     (if ty = ''string'' then
        (case stringify h v of Inl e \<Rightarrow> Inl e | Inr s \<Rightarrow> Inr (VStr s))
      else if ty = ''int'' \<or> ty = ''float'' then
        (case host_Number v of
           NaN \<Rightarrow> Inl (RuntimeError (CannotConvert ty varName))
         | Whole n \<Rightarrow> Inr (VNum n)
         | OtherNumber \<Rightarrow> Inl Unmodelled)
      else if ty = ''bool'' then Inr (VBool (isTruthy h v))
      else Inr v)"

section \<open>Syntax trees\<close>

text \<open>
  \<^verbatim>\<open>ASTNode\<close>, one constructor per node interface. A field of type \<^verbatim>\<open>BlockNode\<close> is
  given by the block's statements; \<^verbatim>\<open>elseBranch\<close> is a \<^verbatim>\<open>BlockNode\<close>, an
  \<^verbatim>\<open>IfNode\<close> or \<^verbatim>\<open>null\<close>. A numeric literal holds the number the parser computed.
\<close>

datatype node =
    MainNode "node list"
  | BlockNode "node list"
  | EchoNode "node list"
  | WriteNode node
  | CreateVarNode string string node
  | AssignVarNode string node
  | IfNode node "node list" "node option"
  | WhileNode node "node list"
  | ForNode "node option" node "node option" "node list"
  | BinaryExprNode string node node
  | UnaryExprNode string node
  | NumberLiteralNode hostnum
  | FloatLiteralNode hostnum
  | StringLiteralNode string
  | BoolLiteralNode bool
  | IdentifierNode string
  | FunctionCallNode string "node list"
  | RandCallNode node node
  | ListLiteralNode "node list"
  | DictLiteralNode "(node \<times> node) list"
  | IndexAccessNode node node
  | MethodCallNode string string string "node list"
  | VoidAppNode string
  | VoidEndNode
  | UsingStyleNode string

record programnode =
  prog_appName :: string
  prog_style :: "string option"
  prog_body :: "node list"

section \<open>Interpreter state\<close>

text \<open>
  What \<^verbatim>\<open>console.log\<close> and \<^verbatim>\<open>readlineSync.question\<close> wrote, in order. The header,
  style and footer lines carry terminal colour codes and box characters in the source;
  here they are recorded by kind.
\<close>

datatype output_event =
    Header string
  | StyleLine string
  | BlankLine
  | EchoLine string
  | Prompt string
  | Footer string

text \<open>
  The current scope chain, the store, the output so far, the lines standard input will
  deliver and the choices \<^verbatim>\<open>Math.random\<close> will make, with how many of each were used.
\<close>

record state =
  cur_env :: environment
  store :: heap
  stdout :: "output_event list"
  stdin :: "nat \<Rightarrow> string"
  stdin_pos :: nat
  random_choice :: "nat \<Rightarrow> nat"
  random_pos :: nat

definition initial_state :: "(nat \<Rightarrow> string) \<Rightarrow> (nat \<Rightarrow> nat) \<Rightarrow> state" where
  "initial_state inp rnd =
     \<lparr>cur_env = Environment Map.empty None, store = empty_heap, stdout = [],
      stdin = inp, stdin_pos = 0, random_choice = rnd, random_pos = 0\<rparr>"

definition enter_scope :: "state \<Rightarrow> state" where
  "enter_scope st = st\<lparr>cur_env := Environment Map.empty (Some (cur_env st))\<rparr>"

text \<open>
  Leaving a block: the block's scope object is dropped and its parent, which the block's
  statements updated in place, is current again.
\<close>

definition leave_scope :: "state \<Rightarrow> state" where
  "leave_scope st =
     st\<lparr>cur_env := (case parent (cur_env st) of Some p \<Rightarrow> p | None \<Rightarrow> cur_env st)\<rparr>"

section \<open>Operators and built-in functions\<close>

definition num_result :: "int \<Rightarrow> error + voidvalue" where
  "num_result n = (if \<bar>n\<bar> \<le> max_safe then Inr (VNum n) else Inl Unmodelled)"

text \<open>The host's \<^verbatim>\<open>%\<close>: the remainder has the sign of the dividend.\<close>

definition js_rem :: "int \<Rightarrow> int \<Rightarrow> int" where
  "js_rem a b = sgn a * (\<bar>a\<bar> mod \<bar>b\<bar>)"

text \<open>Both operands coerced with \<^verbatim>\<open>toNumber\<close>, the left one first.\<close>

definition toNumber2 :: "voidvalue \<Rightarrow> voidvalue \<Rightarrow> error + int \<times> int" where
  "toNumber2 left right =
     (case toNumber left of
        Inl e \<Rightarrow> Inl e
      | Inr l \<Rightarrow> (case toNumber right of Inl e \<Rightarrow> Inl e | Inr r \<Rightarrow> Inr (l, r)))"

text \<open>
  The \<^verbatim>\<open>switch (node.operator)\<close> of \<^verbatim>\<open>executeBinaryExpr\<close>, on the two operand values.
  Only \<^verbatim>\<open>+\<close> on two arrays changes the store: it allocates the concatenation.
\<close>

definition binaryOperator :: "string \<Rightarrow> voidvalue \<Rightarrow> voidvalue \<Rightarrow> heap \<Rightarrow> (error + voidvalue) \<times> heap" where
  "binaryOperator operator left right h =
     (if operator = ''+'' then
        (if js_typeof left = ''string'' \<or> js_typeof right = ''string'' then
           (case stringify h left of
              Inl e \<Rightarrow> (Inl e, h)
            | Inr l \<Rightarrow> (case stringify h right of Inl e \<Rightarrow> (Inl e, h) | Inr r \<Rightarrow> (Inr (VStr (l @ r)), h)))
         else
           (case (left, right) of
              (VNum l, VNum r) \<Rightarrow> (num_result (l + r), h)
            | (VList a, VList b) \<Rightarrow>
                (case alloc_list (lists h a @ lists h b) h of (v, h') \<Rightarrow> (Inr v, h'))
            | _ \<Rightarrow> (Inl (RuntimeError (CannotAdd (js_typeof left) (js_typeof right))), h)))
      else if operator = ''-'' then
        (case toNumber2 left right of Inl e \<Rightarrow> (Inl e, h) | Inr (l, r) \<Rightarrow> (num_result (l - r), h))
      else if operator = ''*'' then
        (case toNumber2 left right of Inl e \<Rightarrow> (Inl e, h) | Inr (l, r) \<Rightarrow> (num_result (l * r), h))
      else if operator = ''/'' then
        (case toNumber right of
           Inl e \<Rightarrow> (Inl e, h)
         | Inr divisor \<Rightarrow>
            if divisor = 0 then (Inl (RuntimeError DivisionByZero), h)
            else (case toNumber left of
                    Inl e \<Rightarrow> (Inl e, h)
                  | Inr l \<Rightarrow> if divisor dvd l then (num_result (l div divisor), h) else (Inl Unmodelled, h)))
      else if operator = ''%'' then
        (case toNumber right of
           Inl e \<Rightarrow> (Inl e, h)
         | Inr m \<Rightarrow>
            if m = 0 then (Inl (RuntimeError ModuloByZero), h)
            else (case toNumber left of
                    Inl e \<Rightarrow> (Inl e, h)
                  | Inr l \<Rightarrow> (num_result (js_rem l m), h)))
      else if operator = ''**'' then
        (case toNumber2 left right of
           Inl e \<Rightarrow> (Inl e, h)
         | Inr (l, r) \<Rightarrow> if r < 0 then (Inl Unmodelled, h) else (num_result (l ^ nat r), h))
      else if operator = ''=='' then
        (case areEqual h left right of Inl e \<Rightarrow> (Inl e, h) | Inr b \<Rightarrow> (Inr (VBool b), h))
      else if operator = ''!='' then
        (case areEqual h left right of Inl e \<Rightarrow> (Inl e, h) | Inr b \<Rightarrow> (Inr (VBool (\<not> b)), h))
      else if operator = ''<'' then
        (case toNumber2 left right of Inl e \<Rightarrow> (Inl e, h) | Inr (l, r) \<Rightarrow> (Inr (VBool (l < r)), h))
      else if operator = ''>'' then
        (case toNumber2 left right of Inl e \<Rightarrow> (Inl e, h) | Inr (l, r) \<Rightarrow> (Inr (VBool (l > r)), h))
      else if operator = ''<='' then
        (case toNumber2 left right of Inl e \<Rightarrow> (Inl e, h) | Inr (l, r) \<Rightarrow> (Inr (VBool (l \<le> r)), h))
      else if operator = ''>='' then
        (case toNumber2 left right of Inl e \<Rightarrow> (Inl e, h) | Inr (l, r) \<Rightarrow> (Inr (VBool (l \<ge> r)), h))
      else if operator = ''&&'' then (Inr (VBool (isTruthy h left \<and> isTruthy h right)), h)
      else if operator = ''||'' then (Inr (VBool (isTruthy h left \<or> isTruthy h right)), h)
      else (Inl (RuntimeError (UnknownOperator operator)), h))"

definition unaryOperator :: "string \<Rightarrow> voidvalue \<Rightarrow> heap \<Rightarrow> error + voidvalue" where
  "unaryOperator operator operand h =
     (if operator = ''-'' then
        (case toNumber operand of Inl e \<Rightarrow> Inl e | Inr n \<Rightarrow> Inr (VNum (- n)))
      else if operator = ''!'' then Inr (VBool (\<not> isTruthy h operand))
      else Inl (RuntimeError (UnknownUnaryOperator operator)))"

text \<open>\<^verbatim>\<open>toUpperCase\<close> and \<^verbatim>\<open>toLowerCase\<close> on ASCII text.\<close>

definition is_ascii :: "string \<Rightarrow> bool" where
  "is_ascii s \<longleftrightarrow> list_all (\<lambda>c. (of_char c :: nat) < 128) s"

definition ascii_upper :: "char \<Rightarrow> char" where
  "ascii_upper c = (if c \<ge> CHR ''a'' \<and> c \<le> CHR ''z'' then char_of (of_char c - 32 :: nat) else c)"

definition ascii_lower :: "char \<Rightarrow> char" where
  "ascii_lower c = (if c \<ge> CHR ''A'' \<and> c \<le> CHR ''Z'' then char_of (of_char c + 32 :: nat) else c)"

text \<open>\<^verbatim>\<open>s.includes(t)\<close>: \<open>t\<close> occurs in \<open>s\<close> as a contiguous run.\<close>

fun includes_string :: "string \<Rightarrow> string \<Rightarrow> bool" where
  "includes_string [] t = (t = [])"
| "includes_string (c # cs) t = (take (length t) (c # cs) = t \<or> includes_string cs t)"

text \<open>\<^verbatim>\<open>items.some(item => areEqual(item, searchVal))\<close>: stops at the first equal item.\<close>

fun some_equal :: "heap \<Rightarrow> voidvalue list \<Rightarrow> voidvalue \<Rightarrow> error + bool" where
  "some_equal h [] searchVal = Inr False"
| "some_equal h (item # items) searchVal =
     (case areEqual h item searchVal of
        Inl e \<Rightarrow> Inl e
      | Inr True \<Rightarrow> Inr True
      | Inr False \<Rightarrow> some_equal h items searchVal)"

text \<open>\<^verbatim>\<open>x || 0\<close> on a number: \<^verbatim>\<open>NaN\<close> (and zero) become 0.\<close>

definition or_zero :: "hostnum \<Rightarrow> error + voidvalue" where
  "or_zero x = (case x of NaN \<Rightarrow> Inr (VNum 0) | Whole n \<Rightarrow> Inr (VNum n) | OtherNumber \<Rightarrow> Inl Unmodelled)"

text \<open>
  The \<^verbatim>\<open>switch (node.name)\<close> of \<^verbatim>\<open>executeFunctionCall\<close>, on the evaluated arguments.
  \<^verbatim>\<open>sqrt\<close> and \<^verbatim>\<open>random\<close> produce floating-point numbers and are outside the fragment.
\<close>

definition callBuiltin :: "string \<Rightarrow> voidvalue list \<Rightarrow> heap \<Rightarrow> error + voidvalue" where
  "callBuiltin name args h =
     (if name = ''abs'' then
        (case expectArgs name args 1 of Inl e \<Rightarrow> Inl e | Inr _ \<Rightarrow>
           (case toNumber (args ! 0) of Inl e \<Rightarrow> Inl e | Inr n \<Rightarrow> Inr (VNum \<bar>n\<bar>)))
      else if name = ''sqrt'' then
        (case expectArgs name args 1 of Inl e \<Rightarrow> Inl e | Inr _ \<Rightarrow>
           (case toNumber (args ! 0) of Inl e \<Rightarrow> Inl e | Inr n \<Rightarrow> Inl Unmodelled))
      else if name = ''floor'' \<or> name = ''ceil'' \<or> name = ''round'' then
        (case expectArgs name args 1 of Inl e \<Rightarrow> Inl e | Inr _ \<Rightarrow>
           (case toNumber (args ! 0) of Inl e \<Rightarrow> Inl e | Inr n \<Rightarrow> Inr (VNum n)))
      else if name = ''min'' then
        (case expectArgs name args 2 of Inl e \<Rightarrow> Inl e | Inr _ \<Rightarrow>
           (case toNumber2 (args ! 0) (args ! 1) of Inl e \<Rightarrow> Inl e | Inr (a, b) \<Rightarrow> Inr (VNum (min a b))))
      else if name = ''max'' then
        (case expectArgs name args 2 of Inl e \<Rightarrow> Inl e | Inr _ \<Rightarrow>
           (case toNumber2 (args ! 0) (args ! 1) of Inl e \<Rightarrow> Inl e | Inr (a, b) \<Rightarrow> Inr (VNum (max a b))))
      else if name = ''random'' then Inl Unmodelled
      else if name = ''toInt'' then
        (case expectArgs name args 1 of Inl e \<Rightarrow> Inl e | Inr _ \<Rightarrow>
           (case host_String (args ! 0) of Inl e \<Rightarrow> Inl e | Inr s \<Rightarrow> or_zero (parseInt s)))
      else if name = ''toFloat'' then
        (case expectArgs name args 1 of Inl e \<Rightarrow> Inl e | Inr _ \<Rightarrow>
           (case host_String (args ! 0) of Inl e \<Rightarrow> Inl e | Inr s \<Rightarrow> or_zero (parseFloat s)))
      else if name = ''toString'' then
        (case expectArgs name args 1 of Inl e \<Rightarrow> Inl e | Inr _ \<Rightarrow>
           (case stringify h (args ! 0) of Inl e \<Rightarrow> Inl e | Inr s \<Rightarrow> Inr (VStr s)))
      else if name = ''toBool'' then
        (case expectArgs name args 1 of Inl e \<Rightarrow> Inl e | Inr _ \<Rightarrow>
           Inr (VBool (isTruthy h (args ! 0))))
      else if name = ''length'' then
        (case expectArgs name args 1 of Inl e \<Rightarrow> Inl e | Inr _ \<Rightarrow>
           (case args ! 0 of
              VList a \<Rightarrow> Inr (VNum (int (length (lists h a))))
            | VDict a \<Rightarrow> Inr (VNum (int (length (dict_keys (dicts h a)))))
            | v \<Rightarrow> (case host_String v of Inl e \<Rightarrow> Inl e | Inr s \<Rightarrow> Inr (VNum (int (length s))))))
      else if name = ''upper'' then
        (case expectArgs name args 1 of Inl e \<Rightarrow> Inl e | Inr _ \<Rightarrow>
           (case host_String (args ! 0) of Inl e \<Rightarrow> Inl e | Inr s \<Rightarrow>
              if is_ascii s then Inr (VStr (map ascii_upper s)) else Inl Unmodelled))
      else if name = ''lower'' then
        (case expectArgs name args 1 of Inl e \<Rightarrow> Inl e | Inr _ \<Rightarrow>
           (case host_String (args ! 0) of Inl e \<Rightarrow> Inl e | Inr s \<Rightarrow>
              if is_ascii s then Inr (VStr (map ascii_lower s)) else Inl Unmodelled))
      else if name = ''trim'' then
        (case expectArgs name args 1 of Inl e \<Rightarrow> Inl e | Inr _ \<Rightarrow>
           (case host_String (args ! 0) of Inl e \<Rightarrow> Inl e | Inr s \<Rightarrow> Inr (VStr (trim_string s))))
      else if name = ''contains'' then
        (case expectArgs name args 2 of Inl e \<Rightarrow> Inl e | Inr _ \<Rightarrow>
           (case args ! 0 of
              VList a \<Rightarrow>
                (case some_equal h (lists h a) (args ! 1) of Inl e \<Rightarrow> Inl e | Inr b \<Rightarrow> Inr (VBool b))
            | v \<Rightarrow>
                (case host_String v of Inl e \<Rightarrow> Inl e | Inr s \<Rightarrow>
                   (case host_String (args ! 1) of Inl e \<Rightarrow> Inl e | Inr t \<Rightarrow>
                      Inr (VBool (includes_string s t))))))
      else Inl (RuntimeError (UnknownFunction name)))"

text \<open>
  Index resolution shared by \<^verbatim>\<open>executeIndexAccess\<close> and \<^verbatim>\<open>delete:list\<close>: a negative index
  counts from the end; \<open>None\<close> when the resolved index is out of range.
\<close>

definition resolve_index :: "int \<Rightarrow> nat \<Rightarrow> nat option" where
  "resolve_index idx len =
     (let resolvedIdx = (if idx < 0 then int len + idx else idx)
      in if resolvedIdx < 0 \<or> resolvedIdx \<ge> int len then None else Some (nat resolvedIdx))"

definition indexAccess :: "heap \<Rightarrow> voidvalue \<Rightarrow> voidvalue \<Rightarrow> error + voidvalue" where
  "indexAccess h obj index =
     (case obj of
        VList a \<Rightarrow>
          (case toNumber index of
             Inl e \<Rightarrow> Inl e
           | Inr idx \<Rightarrow>
              (case resolve_index idx (length (lists h a)) of
                 None \<Rightarrow> Inl (RuntimeError (ListIndexOutOfRange idx (length (lists h a))))
               | Some i \<Rightarrow> Inr (lists h a ! i)))
      | VDict a \<Rightarrow>
          (case findDictKey h (dicts h a) index of
             Inl e \<Rightarrow> Inl e
           | Inr keyIdx \<Rightarrow>
              if keyIdx = - 1 then
                (case stringify h index of
                   Inl e \<Rightarrow> Inl e
                 | Inr s \<Rightarrow> Inl (RuntimeError (DictKeyNotFound s)))
              else if nat keyIdx < length (dict_values (dicts h a))
              then Inr (dict_values (dicts h a) ! nat keyIdx)
              else Inl Unmodelled)
      | VStr s \<Rightarrow>
          (case toNumber index of
             Inl e \<Rightarrow> Inl e
           | Inr idx \<Rightarrow>
              (case resolve_index idx (length s) of
                 None \<Rightarrow> Inl (RuntimeError (StringIndexOutOfRange idx (length s)))
               | Some i \<Rightarrow> Inr (VStr [s ! i])))
      | _ \<Rightarrow> Inl (RuntimeError (NotIndexable (js_typeof obj))))"

section \<open>Loops\<close>

definition MAX_ITERATIONS :: nat where
  "MAX_ITERATIONS = 1000000"

type_synonym action = "state \<Rightarrow> (error + voidvalue) \<times> state"

text \<open>
  The \<^verbatim>\<open>while\<close> statement of \<^verbatim>\<open>executeWhile\<close>, for any evaluation of the condition and
  of the body; \<open>iterations\<close> is the local counter. Beside the outcome, the function returns
  the value the counter has when the loop is left.
\<close>

function while_loop :: "action \<Rightarrow> action \<Rightarrow> nat \<Rightarrow> state \<Rightarrow> ((error + voidvalue) \<times> state) \<times> nat" where
  "while_loop cond body iterations st =
     (case cond st of
        (Inl e, st1) \<Rightarrow> ((Inl e, st1), iterations)
      | (Inr c, st1) \<Rightarrow>
          if isTruthy (store st1) c then
            (case body st1 of
               (Inl e, st2) \<Rightarrow> ((Inl e, st2), iterations)
             | (Inr _, st2) \<Rightarrow>
                 if iterations + 1 > MAX_ITERATIONS
                 then ((Inl (RuntimeError MaxIterationsExceeded), st2), iterations + 1)
                 else while_loop cond body (iterations + 1) st2)
          else ((Inr VNull, st1), iterations))"
  by pat_completeness auto
termination
  by (relation "measure (\<lambda>(cond, body, iterations, st). MAX_ITERATIONS + 1 - iterations)") auto

declare while_loop.simps [simp del]

text \<open>
  The \<^verbatim>\<open>while\<close> statement of \<^verbatim>\<open>executeFor\<close>: body, then the update (which does
  nothing when the node has none).
\<close>

function for_loop :: "action \<Rightarrow> action \<Rightarrow> action \<Rightarrow> nat \<Rightarrow> state \<Rightarrow> ((error + voidvalue) \<times> state) \<times> nat" where
  "for_loop cond body update iterations st =
     (case cond st of
        (Inl e, st1) \<Rightarrow> ((Inl e, st1), iterations)
      | (Inr c, st1) \<Rightarrow>
          if isTruthy (store st1) c then
            (case body st1 of
               (Inl e, st2) \<Rightarrow> ((Inl e, st2), iterations)
             | (Inr _, st2) \<Rightarrow>
                 (case update st2 of
                    (Inl e, st3) \<Rightarrow> ((Inl e, st3), iterations)
                  | (Inr _, st3) \<Rightarrow>
                      if iterations + 1 > MAX_ITERATIONS
                      then ((Inl (RuntimeError MaxIterationsExceeded), st3), iterations + 1)
                      else for_loop cond body update (iterations + 1) st3))
          else ((Inr VNull, st1), iterations))"
  by pat_completeness auto
termination
  by (relation "measure (\<lambda>(cond, body, update, iterations, st). MAX_ITERATIONS + 1 - iterations)") auto

declare for_loop.simps [simp del]

lemma while_loop_cong [fundef_cong]:
  "(\<And>s. cond s = cond' s) \<Longrightarrow> (\<And>s. body s = body' s) \<Longrightarrow> iterations = iterations' \<Longrightarrow> st = st' \<Longrightarrow>
   while_loop cond body iterations st = while_loop cond' body' iterations' st'"
proof -
  assume "\<And>s. cond s = cond' s" "\<And>s. body s = body' s" "iterations = iterations'" "st = st'"
  then have "cond = cond'" "body = body'" "iterations = iterations'" "st = st'" by auto
  then show ?thesis by simp
qed

lemma for_loop_cong [fundef_cong]:
  "(\<And>s. cond s = cond' s) \<Longrightarrow> (\<And>s. body s = body' s) \<Longrightarrow> (\<And>s. update s = update' s) \<Longrightarrow>
   iterations = iterations' \<Longrightarrow> st = st' \<Longrightarrow>
   for_loop cond body update iterations st = for_loop cond' body' update' iterations' st'"
proof -
  assume "\<And>s. cond s = cond' s" "\<And>s. body s = body' s" "\<And>s. update s = update' s"
    "iterations = iterations'" "st = st'"
  then have "cond = cond'" "body = body'" "update = update'" "iterations = iterations'" "st = st'"
    by auto
  then show ?thesis by simp
qed

section \<open>The evaluator\<close>

definition number_literal :: "hostnum \<Rightarrow> error + voidvalue" where
  "number_literal x = (case x of Whole n \<Rightarrow> Inr (VNum n) | _ \<Rightarrow> Inl Unmodelled)"

definition stringify_all :: "heap \<Rightarrow> voidvalue list \<Rightarrow> error + string list" where
  "stringify_all h vs = stringify_items host_stack_depth h vs"

definition is_scalar_type :: "string \<Rightarrow> bool" where
  "is_scalar_type ty \<longleftrightarrow> ty \<noteq> ''list'' \<and> ty \<noteq> ''dict''"

text \<open>
  \<^verbatim>\<open>executeNode\<close> and the methods it dispatches to. \<^verbatim>\<open>executeBlock\<close> runs the statements
  in a fresh child scope; \<^verbatim>\<open>executeStatements\<close> is its \<^verbatim>\<open>for\<close> loop, \<^verbatim>\<open>executeAll\<close>
  evaluates a list of expressions from left to right, \<^verbatim>\<open>executeEntries\<close> the entries of
  a dict literal. An error ends the run: it is returned with the state reached.
  (\<^verbatim>\<open>dict.values[existingIdx] = value\<close> beyond the end of \<^verbatim>\<open>values\<close> would make the
  host extend the array with holes; the two arrays of a dict have the same length in every
  state the interpreter builds, and the case is outside the fragment.)
\<close>

function executeNode :: "node \<Rightarrow> state \<Rightarrow> (error + voidvalue) \<times> state"
and executeBlock :: "node list \<Rightarrow> state \<Rightarrow> (error + voidvalue) \<times> state"
and executeStatements :: "node list \<Rightarrow> voidvalue \<Rightarrow> state \<Rightarrow> (error + voidvalue) \<times> state"
and executeAll :: "node list \<Rightarrow> state \<Rightarrow> (error + voidvalue list) \<times> state"
and executeEntries :: "(node \<times> node) list \<Rightarrow> state \<Rightarrow> (error + voiddict) \<times> state"
where
  "executeNode (MainNode stmts) st = executeBlock stmts st"
| "executeNode (BlockNode stmts) st = executeBlock stmts st"
| "executeNode (EchoNode expressions) st =
     (case executeAll expressions st of
        (Inl e, st1) \<Rightarrow> (Inl e, st1)
      | (Inr vals, st1) \<Rightarrow>
          (case stringify_all (store st1) vals of
             Inl e \<Rightarrow> (Inl e, st1)
           | Inr strs \<Rightarrow> (Inr VNull, st1\<lparr>stdout := stdout st1 @ [EchoLine (join_with '' '' strs)]\<rparr>)))"
| "executeNode (WriteNode prompt) st =
     (case executeNode prompt st of
        (Inl e, st1) \<Rightarrow> (Inl e, st1)
      | (Inr v, st1) \<Rightarrow>
          (case stringify (store st1) v of
             Inl e \<Rightarrow> (Inl e, st1)
           | Inr p \<Rightarrow>
              (Inr (VStr (stdin st1 (stdin_pos st1))),
               st1\<lparr>stdout := stdout st1 @ [Prompt p], stdin_pos := stdin_pos st1 + 1\<rparr>)))"
| "executeNode (CreateVarNode varType name val) st =
     (case executeNode val st of
        (Inl e, st1) \<Rightarrow> (Inl e, st1)
      | (Inr v, st1) \<Rightarrow>
          (case (if is_scalar_type varType then castValue (store st1) v varType name
                 else if varType = ''list'' \<and> \<not> (case v of VList _ \<Rightarrow> True | _ \<Rightarrow> False) then
                   (case stringify (store st1) v of
                      Inl e \<Rightarrow> Inl e
                    | Inr s \<Rightarrow> Inl (RuntimeError (ExpectsList name s)))
                 else if varType = ''dict'' \<and> \<not> (case v of VDict _ \<Rightarrow> True | _ \<Rightarrow> False) then
                   (case stringify (store st1) v of
                      Inl e \<Rightarrow> Inl e
                    | Inr s \<Rightarrow> Inl (RuntimeError (ExpectsDict name s)))
                 else Inr v) of
             Inl e \<Rightarrow> (Inl e, st1)
           | Inr v' \<Rightarrow>
              (case env_define (cur_env st1) name varType v' of
                 Inl e \<Rightarrow> (Inl e, st1)
               | Inr env' \<Rightarrow> (Inr v', st1\<lparr>cur_env := env'\<rparr>))))"
| "executeNode (AssignVarNode name val) st =
     (case env_get (cur_env st) name of
        Inl e \<Rightarrow> (Inl e, st)
      | Inr var \<Rightarrow>
          (case executeNode val st of
             (Inl e, st1) \<Rightarrow> (Inl e, st1)
           | (Inr v, st1) \<Rightarrow>
              (case (if is_scalar_type (var_type var) then castValue (store st1) v (var_type var) name
                     else Inr v) of
                 Inl e \<Rightarrow> (Inl e, st1)
               | Inr v' \<Rightarrow>
                  (case env_set (cur_env st1) name v' of
                     Inl e \<Rightarrow> (Inl e, st1)
                   | Inr env' \<Rightarrow> (Inr v', st1\<lparr>cur_env := env'\<rparr>)))))"
| "executeNode (IfNode condition thenBranch elseBranch) st =
     (case executeNode condition st of
        (Inl e, st1) \<Rightarrow> (Inl e, st1)
      | (Inr c, st1) \<Rightarrow>
          if isTruthy (store st1) c then executeBlock thenBranch st1
          else (case elseBranch of
                  None \<Rightarrow> (Inr VNull, st1)
                | Some el \<Rightarrow>
                   (case el of
                      IfNode _ _ _ \<Rightarrow> executeNode el st1
                    | BlockNode stmts \<Rightarrow> executeBlock stmts st1
                    | _ \<Rightarrow> (Inl TypeError, st1))))"
| "executeNode (WhileNode condition stmts) st =
     fst (while_loop (\<lambda>s. executeNode condition s) (\<lambda>s. executeBlock stmts s) 0 st)"
| "executeNode (ForNode init condition update stmts) st =
     (case (case init of None \<Rightarrow> (Inr VNull, enter_scope st) | Some i \<Rightarrow> executeNode i (enter_scope st)) of
        (Inl e, st1) \<Rightarrow> (Inl e, st1)
      | (Inr _, st1) \<Rightarrow>
          (case fst (for_loop (\<lambda>s. executeNode condition s) (\<lambda>s. executeBlock stmts s)
                       (\<lambda>s. case update of None \<Rightarrow> (Inr VNull, s) | Some u \<Rightarrow> executeNode u s) 0 st1) of
             (Inl e, st2) \<Rightarrow> (Inl e, st2)
           | (Inr v, st2) \<Rightarrow> (Inr v, leave_scope st2)))"
| "executeNode (BinaryExprNode operator left right) st =
     (case executeNode left st of
        (Inl e, st1) \<Rightarrow> (Inl e, st1)
      | (Inr l, st1) \<Rightarrow>
          (case executeNode right st1 of
             (Inl e, st2) \<Rightarrow> (Inl e, st2)
           | (Inr r, st2) \<Rightarrow>
              (case binaryOperator operator l r (store st2) of
                 (res, h) \<Rightarrow> (res, st2\<lparr>store := h\<rparr>))))"
| "executeNode (UnaryExprNode operator operand) st =
     (case executeNode operand st of
        (Inl e, st1) \<Rightarrow> (Inl e, st1)
      | (Inr v, st1) \<Rightarrow> (unaryOperator operator v (store st1), st1))"
| "executeNode (NumberLiteralNode n) st = (number_literal n, st)"
| "executeNode (FloatLiteralNode n) st = (number_literal n, st)"
| "executeNode (StringLiteralNode s) st = (Inr (VStr s), st)"
| "executeNode (BoolLiteralNode b) st = (Inr (VBool b), st)"
| "executeNode (IdentifierNode name) st =
     (case env_get (cur_env st) name of
        Inl e \<Rightarrow> (Inl e, st)
      | Inr var \<Rightarrow> (Inr (var_value var), st))"
| "executeNode (FunctionCallNode name args) st =
     (case executeAll args st of
        (Inl e, st1) \<Rightarrow> (Inl e, st1)
      | (Inr vals, st1) \<Rightarrow> (callBuiltin name vals (store st1), st1))"
| "executeNode (RandCallNode lo hi) st =
     (case executeNode lo st of
        (Inl e, st1) \<Rightarrow> (Inl e, st1)
      | (Inr vlo, st1) \<Rightarrow>
          (case toNumber vlo of
             Inl e \<Rightarrow> (Inl e, st1)
           | Inr mn \<Rightarrow>
              (case executeNode hi st1 of
                 (Inl e, st2) \<Rightarrow> (Inl e, st2)
               | (Inr vhi, st2) \<Rightarrow>
                  (case toNumber vhi of
                     Inl e \<Rightarrow> (Inl e, st2)
                   | Inr mx \<Rightarrow>
                      if mn > mx then (Inl (RuntimeError RandMinGreaterMax), st2)
                      else (num_result (mn + int (random_choice st2 (random_pos st2)) mod (mx - mn + 1)),
                            st2\<lparr>random_pos := random_pos st2 + 1\<rparr>)))))"
| "executeNode (ListLiteralNode elements) st =
     (case executeAll elements st of
        (Inl e, st1) \<Rightarrow> (Inl e, st1)
      | (Inr vals, st1) \<Rightarrow>
          (case alloc_list vals (store st1) of (v, h) \<Rightarrow> (Inr v, st1\<lparr>store := h\<rparr>)))"
| "executeNode (DictLiteralNode entries) st =
     (case executeEntries entries st of
        (Inl e, st1) \<Rightarrow> (Inl e, st1)
      | (Inr dict, st1) \<Rightarrow>
          (case alloc_dict dict (store st1) of (v, h) \<Rightarrow> (Inr v, st1\<lparr>store := h\<rparr>)))"
| "executeNode (IndexAccessNode object index) st =
     (case executeNode object st of
        (Inl e, st1) \<Rightarrow> (Inl e, st1)
      | (Inr obj, st1) \<Rightarrow>
          (case executeNode index st1 of
             (Inl e, st2) \<Rightarrow> (Inl e, st2)
           | (Inr idx, st2) \<Rightarrow> (indexAccess (store st2) obj idx, st2)))"
| "executeNode (MethodCallNode object method collectionType args) st =
     (case env_get (cur_env st) object of
        Inl e \<Rightarrow> (Inl e, st)
      | Inr var \<Rightarrow>
          if method = ''add'' then
            (if collectionType = ''list'' then
               (case var_value var of
                  VList a \<Rightarrow>
                    (case args of
                       [arg] \<Rightarrow>
                         (case executeNode arg st of
                            (Inl e, st1) \<Rightarrow> (Inl e, st1)
                          | (Inr v, st1) \<Rightarrow>
                              (Inr VNull,
                               st1\<lparr>store := (store st1)\<lparr>lists := (lists (store st1))(a := lists (store st1) a @ [v])\<rparr>\<rparr>))
                     | _ \<Rightarrow> (Inl (RuntimeError (MethodArity method collectionType)), st))
                | _ \<Rightarrow> (Inl (RuntimeError (NotAList object)), st))
             else if collectionType = ''dict'' then
               (case var_value var of
                  VDict a \<Rightarrow>
                    (case args of
                       [karg, varg] \<Rightarrow>
                         (case executeNode karg st of
                            (Inl e, st1) \<Rightarrow> (Inl e, st1)
                          | (Inr key, st1) \<Rightarrow>
                              (case executeNode varg st1 of
                                 (Inl e, st2) \<Rightarrow> (Inl e, st2)
                               | (Inr v, st2) \<Rightarrow>
                                   (case findDictKey (store st2) (dicts (store st2) a) key of
                                      Inl e \<Rightarrow> (Inl e, st2)
                                    | Inr existingIdx \<Rightarrow>
                                        if existingIdx \<noteq> - 1 \<and>
                                           \<not> nat existingIdx < length (dict_values (dicts (store st2) a))
                                        then (Inl Unmodelled, st2)
                                        else
                                        (Inr VNull,
                                         st2\<lparr>store := (store st2)\<lparr>dicts := (dicts (store st2))
                                           (a := (if existingIdx \<noteq> - 1
                                                  then (dicts (store st2) a)
                                                         \<lparr>dict_values := (dict_values (dicts (store st2) a))[nat existingIdx := v]\<rparr>
                                                  else \<lparr>dict_keys = dict_keys (dicts (store st2) a) @ [key],
                                                        dict_values = dict_values (dicts (store st2) a) @ [v]\<rparr>))\<rparr>\<rparr>))))
                     | _ \<Rightarrow> (Inl (RuntimeError (MethodArity method collectionType)), st))
                | _ \<Rightarrow> (Inl (RuntimeError (NotADict object)), st))
             else (Inr VNull, st))
          else if method = ''delete'' then
            (if collectionType = ''list'' then
               (case var_value var of
                  VList a \<Rightarrow>
                    (case args of
                       [arg] \<Rightarrow>
                         (case executeNode arg st of
                            (Inl e, st1) \<Rightarrow> (Inl e, st1)
                          | (Inr v, st1) \<Rightarrow>
                              (case toNumber v of
                                 Inl e \<Rightarrow> (Inl e, st1)
                               | Inr idx \<Rightarrow>
                                   (case resolve_index idx (length (lists (store st1) a)) of
                                      None \<Rightarrow>
                                        (Inl (RuntimeError (ListIndexOutOfRange idx (length (lists (store st1) a)))), st1)
                                    | Some i \<Rightarrow>
                                        (Inr VNull,
                                         st1\<lparr>store := (store st1)\<lparr>lists := (lists (store st1))
                                           (a := take i (lists (store st1) a) @ drop (Suc i) (lists (store st1) a))\<rparr>\<rparr>))))
                     | _ \<Rightarrow> (Inl (RuntimeError (MethodArity method collectionType)), st))
                | _ \<Rightarrow> (Inl (RuntimeError (NotAList object)), st))
             else if collectionType = ''dict'' then
               (case var_value var of
                  VDict a \<Rightarrow>
                    (case args of
                       [arg] \<Rightarrow>
                         (case executeNode arg st of
                            (Inl e, st1) \<Rightarrow> (Inl e, st1)
                          | (Inr key, st1) \<Rightarrow>
                              (case findDictKey (store st1) (dicts (store st1) a) key of
                                 Inl e \<Rightarrow> (Inl e, st1)
                               | Inr keyIdx \<Rightarrow>
                                   if keyIdx = - 1 then
                                     (case stringify (store st1) key of
                                        Inl e \<Rightarrow> (Inl e, st1)
                                      | Inr s \<Rightarrow> (Inl (RuntimeError (DictKeyNotFound s)), st1))
                                   else
                                     (Inr VNull,
                                      st1\<lparr>store := (store st1)\<lparr>dicts := (dicts (store st1))
                                        (a := \<lparr>dict_keys = take (nat keyIdx) (dict_keys (dicts (store st1) a)) @
                                                           drop (Suc (nat keyIdx)) (dict_keys (dicts (store st1) a)),
                                               dict_values = take (nat keyIdx) (dict_values (dicts (store st1) a)) @
                                                             drop (Suc (nat keyIdx)) (dict_values (dicts (store st1) a))\<rparr>)\<rparr>\<rparr>)))
                     | _ \<Rightarrow> (Inl (RuntimeError (MethodArity method collectionType)), st))
                | _ \<Rightarrow> (Inl (RuntimeError (NotADict object)), st))
             else (Inr VNull, st))
          else if method = ''clear'' then
            (if collectionType = ''list'' then
               (case var_value var of
                  VList a \<Rightarrow>
                    (if args \<noteq> [] then (Inl (RuntimeError (MethodArity method collectionType)), st)
                     else (Inr VNull, st\<lparr>store := (store st)\<lparr>lists := (lists (store st))(a := [])\<rparr>\<rparr>))
                | _ \<Rightarrow> (Inl (RuntimeError (NotAList object)), st))
             else if collectionType = ''dict'' then
               (case var_value var of
                  VDict a \<Rightarrow>
                    (if args \<noteq> [] then (Inl (RuntimeError (MethodArity method collectionType)), st)
                     else (Inr VNull,
                           st\<lparr>store := (store st)\<lparr>dicts := (dicts (store st))
                             (a := \<lparr>dict_keys = [], dict_values = []\<rparr>)\<rparr>\<rparr>))
                | _ \<Rightarrow> (Inl (RuntimeError (NotADict object)), st))
             else (Inr VNull, st))
          else (Inl (RuntimeError (UnknownMethod method)), st))"
| "executeNode (VoidAppNode name) st = (Inl (RuntimeError (UnknownNode ''VoidApp'')), st)"
| "executeNode VoidEndNode st = (Inl (RuntimeError (UnknownNode ''VoidEnd'')), st)"
| "executeNode (UsingStyleNode name) st = (Inl (RuntimeError (UnknownNode ''UsingStyle'')), st)"
| "executeBlock stmts st =
     (case executeStatements stmts VNull (enter_scope st) of
        (Inl e, st1) \<Rightarrow> (Inl e, st1)
      | (Inr v, st1) \<Rightarrow> (Inr v, leave_scope st1))"
| "executeStatements [] result st = (Inr result, st)"
| "executeStatements (stmt # stmts) result st =
     (case executeNode stmt st of
        (Inl e, st1) \<Rightarrow> (Inl e, st1)
      | (Inr v, st1) \<Rightarrow> executeStatements stmts v st1)"
| "executeAll [] st = (Inr [], st)"
| "executeAll (x # xs) st =
     (case executeNode x st of
        (Inl e, st1) \<Rightarrow> (Inl e, st1)
      | (Inr v, st1) \<Rightarrow>
          (case executeAll xs st1 of
             (Inl e, st2) \<Rightarrow> (Inl e, st2)
           | (Inr vs, st2) \<Rightarrow> (Inr (v # vs), st2)))"
| "executeEntries [] st = (Inr createVoidDict, st)"
| "executeEntries (entry # entries) st =
     (case executeNode (fst entry) st of
        (Inl e, st1) \<Rightarrow> (Inl e, st1)
      | (Inr key, st1) \<Rightarrow>
          (case executeNode (snd entry) st1 of
             (Inl e, st2) \<Rightarrow> (Inl e, st2)
           | (Inr v, st2) \<Rightarrow>
              (case executeEntries entries st2 of
                 (Inl e, st3) \<Rightarrow> (Inl e, st3)
               | (Inr dict, st3) \<Rightarrow>
                  (Inr \<lparr>dict_keys = key # dict_keys dict, dict_values = v # dict_values dict\<rparr>, st3))))"
  by pat_completeness auto
termination
  by (relation "inv_image (less_than <*lex*> less_than)
        (\<lambda>x. case x of
           Inl (Inl (n, st)) \<Rightarrow> (size n, 0::nat)
         | Inl (Inr (stmts, st)) \<Rightarrow> (size_list size stmts, 2)
         | Inr (Inl (stmts, res, st)) \<Rightarrow> (size_list size stmts, 1)
         | Inr (Inr (Inl (xs, st))) \<Rightarrow> (size_list size xs, 1)
         | Inr (Inr (Inr (es, st))) \<Rightarrow> (size_list (\<lambda>x. Suc (size (fst x) + size (snd x))) es, 1))")
     (auto simp: size_prod_simp)

text \<open>
  \<^verbatim>\<open>execute\<close>: header, optional style line, an empty line, every top-level node in the
  global scope, an empty line and the footer. An error leaves the footer unwritten.
\<close>

fun executeTopLevel :: "node list \<Rightarrow> state \<Rightarrow> (error + unit) \<times> state" where
  "executeTopLevel [] st = (Inr (), st)"
| "executeTopLevel (n # ns) st =
     (case executeNode n st of
        (Inl e, st1) \<Rightarrow> (Inl e, st1)
      | (Inr _, st1) \<Rightarrow> executeTopLevel ns st1)"

definition execute :: "programnode \<Rightarrow> state \<Rightarrow> (error + unit) \<times> state" where
  "execute program st =
     (let st0 = st\<lparr>stdout := stdout st @ [Header (prog_appName program)] @
                   (case prog_style program of
                      None \<Rightarrow> []
                    | Some s \<Rightarrow> if s \<noteq> [] then [StyleLine s] else []) @ [BlankLine]\<rparr>
      in case executeTopLevel (prog_body program) st0 of
           (Inl e, st1) \<Rightarrow> (Inl e, st1)
         | (Inr _, st1) \<Rightarrow>
             (Inr (), st1\<lparr>stdout := stdout st1 @ [BlankLine, Footer (prog_appName program)]\<rparr>))"

section \<open>Tokens\<close>

text \<open>
  \<^verbatim>\<open>enum TokenType\<close>. The lexer and the parser also refer to \<^verbatim>\<open>LBRACKET\<close>,
  \<^verbatim>\<open>RBRACKET\<close> and \<^verbatim>\<open>DOT\<close>; they are members here.
\<close>

datatype (plugins only: code) tokentype =
    VOID_APP | VOID_END | VOID_FUNC | VOID_IMPORT | USING | STYLE | MAIN | CREATE | ECHO | WRITE
  | IF | ELSE | WHILE | FOR | RAND | ADD | DELETE | CLEAR
  | TYPE_STRING | TYPE_INT | TYPE_FLOAT | TYPE_BOOL | TYPE_VOID | TYPE_LIST | TYPE_DICT
  | STRING_LITERAL | INT_LITERAL | FLOAT_LITERAL | BOOL_LITERAL
  | IDENTIFIER
  | ASSIGN | PLUS | MINUS | MULTIPLY | DIVIDE | MODULO | POWER
  | EQUALS | NOT_EQUALS | LESS | GREATER | LESS_EQ | GREATER_EQ
  | AND | OR | NOT
  | LPAREN | RPAREN | LBRACE | RBRACE | LBRACKET | RBRACKET | SEMICOLON | DOT | COMMA | COLON
  | EOF | NEWLINE

datatype token =
  Token (tok_type: tokentype) (tok_value: string) (tok_line: nat) (tok_column: nat)

definition createToken :: "tokentype \<Rightarrow> string \<Rightarrow> nat \<Rightarrow> nat \<Rightarrow> token" where
  "createToken ty v line column = Token ty v line column"

section \<open>Lexer\<close>

datatype lexer_msg =
    UnterminatedComment
  | UnterminatedString
  | UnknownDirective string
  | UnexpectedChar char

datatype lexer_error = LexerError lexer_msg nat nat

text \<open>
  The lexer's cursor: \<open>lx_rest\<close> is the source from \<^verbatim>\<open>pos\<close> on (empty when
  \<^verbatim>\<open>pos >= source.length\<close>), with the current line and column.
\<close>

record lexer =
  lx_rest :: string
  lx_line :: nat
  lx_column :: nat

definition keyword_table :: "string \<Rightarrow> tokentype option" where
  "keyword_table = map_of
     [(''using'', USING), (''style'', STYLE), (''main'', MAIN), (''echo'', ECHO),
      (''write'', WRITE), (''if'', IF), (''else'', ELSE), (''while'', WHILE), (''for'', FOR),
      (''string'', TYPE_STRING), (''int'', TYPE_INT), (''float'', TYPE_FLOAT),
      (''bool'', TYPE_BOOL), (''true'', BOOL_LITERAL), (''false'', BOOL_LITERAL),
      (''rand'', RAND), (''list'', TYPE_LIST), (''dict'', TYPE_DICT), (''add'', ADD),
      (''delete'', DELETE), (''clear'', CLEAR)]"

definition current :: "lexer \<Rightarrow> char" where
  "current lx = (case lx_rest lx of [] \<Rightarrow> CHR 0x00 | c # _ \<Rightarrow> c)"

definition peek :: "lexer \<Rightarrow> char" where
  "peek lx = (case lx_rest lx of _ # c # _ \<Rightarrow> c | _ \<Rightarrow> CHR 0x00)"

definition advance :: "lexer \<Rightarrow> char \<times> lexer" where
  "advance lx =
     (let ch = current lx
      in (ch, if ch = CHR 0x0A
              then \<lparr>lx_rest = tl (lx_rest lx), lx_line = lx_line lx + 1, lx_column = 1\<rparr>
              else \<lparr>lx_rest = tl (lx_rest lx), lx_line = lx_line lx, lx_column = lx_column lx + 1\<rparr>))"

lemma advance_rest_le: "length (lx_rest (snd (advance lx))) \<le> length (lx_rest lx)"
  by (simp add: advance_def Let_def)

lemma advance_rest_less:
  "lx_rest lx \<noteq> [] \<Longrightarrow> length (lx_rest (snd (advance lx))) < length (lx_rest lx)"
  by (simp add: advance_def Let_def)

text \<open>
  The loop \<^verbatim>\<open>while (this.pos < this.source.length && p(this.current())) \<dots> this.advance()\<close>,
  which \<^verbatim>\<open>skipWhitespace\<close>, \<^verbatim>\<open>skipSingleLineComment\<close>, \<^verbatim>\<open>readNumber\<close>,
  \<^verbatim>\<open>readIdentifier\<close> and \<^verbatim>\<open>readDirective\<close> all run; it returns the characters passed.
\<close>

function advance_while :: "(char \<Rightarrow> bool) \<Rightarrow> lexer \<Rightarrow> string \<times> lexer" where
  "advance_while p lx =
     (if lx_rest lx \<noteq> [] \<and> p (current lx)
      then (case advance lx of (ch, lx1) \<Rightarrow>
              (case advance_while p lx1 of (s, lx2) \<Rightarrow> (ch # s, lx2)))
      else ([], lx))"
  by pat_completeness auto
termination
  by (relation "measure (\<lambda>(p, lx). length (lx_rest lx))")
     (auto simp: advance_def Let_def split: if_splits)

declare advance_while.simps [simp del]

lemma advance_while_rest_le:
  "length (lx_rest (snd (advance_while p lx))) \<le> length (lx_rest lx)"
proof (induction p lx rule: advance_while.induct)
  case (1 p lx)
  show ?case
  proof (cases "lx_rest lx \<noteq> [] \<and> p (current lx)")
    case True
    obtain ch lx1 where a: "advance lx = (ch, lx1)" by (cases "advance lx")
    have "length (lx_rest lx1) \<le> length (lx_rest lx)"
      using advance_rest_le[of lx] a by simp
    moreover have "length (lx_rest (snd (advance_while p lx1))) \<le> length (lx_rest lx1)"
      using "1.IH"[OF True a[symmetric]] by simp
    ultimately show ?thesis
      using True a by (subst advance_while.simps) (auto split: prod.splits)
  next
    case False
    then show ?thesis by (subst advance_while.simps) auto
  qed
qed

lemma advance_while_rest_less:
  assumes "lx_rest lx \<noteq> []" "p (current lx)"
  shows "length (lx_rest (snd (advance_while p lx))) < length (lx_rest lx)"
proof -
  obtain ch lx1 where a: "advance lx = (ch, lx1)" by (cases "advance lx")
  have "length (lx_rest lx1) < length (lx_rest lx)"
    using advance_rest_less[OF assms(1)] a by simp
  moreover have "length (lx_rest (snd (advance_while p lx1))) \<le> length (lx_rest lx1)"
    by (rule advance_while_rest_le)
  ultimately show ?thesis
    using assms a by (subst advance_while.simps) (auto split: prod.splits)
qed

definition skipWhitespace :: "lexer \<Rightarrow> lexer" where
  "skipWhitespace lx =
     snd (advance_while (\<lambda>ch. ch = CHR '' '' \<or> ch = CHR 0x09 \<or> ch = CHR 0x0D \<or> ch = CHR 0x0A) lx)"

definition skipSingleLineComment :: "lexer \<Rightarrow> lexer" where
  "skipSingleLineComment lx = snd (advance_while (\<lambda>ch. ch \<noteq> CHR 0x0A) lx)"

text \<open>The loop of \<^verbatim>\<open>skipMultiLineComment\<close>, after the opening \<^verbatim>\<open>#*\<close> was passed.\<close>

function skipMultiLineComment_loop :: "lexer \<Rightarrow> lexer_error + lexer" where
  "skipMultiLineComment_loop lx =
     (if lx_rest lx \<noteq> [] then
        (if current lx = CHR ''*'' \<and> peek lx = CHR ''#''
         then Inr (snd (advance (snd (advance lx))))
         else skipMultiLineComment_loop (snd (advance lx)))
      else Inl (LexerError UnterminatedComment (lx_line lx) (lx_column lx)))"
  by pat_completeness auto
termination
  by (relation "measure (\<lambda>lx. length (lx_rest lx))") (auto simp: advance_def Let_def)

declare skipMultiLineComment_loop.simps [simp del]

definition skipMultiLineComment :: "lexer \<Rightarrow> lexer_error + lexer" where
  "skipMultiLineComment lx = skipMultiLineComment_loop (snd (advance (snd (advance lx))))"

text \<open>The loop of \<^verbatim>\<open>readString\<close>, after the opening quote; \<open>val\<close> is the text read so far.\<close>

definition escape_char :: "char \<Rightarrow> char" where
  "escape_char escaped =
     (if escaped = CHR ''n'' then CHR 0x0A
      else if escaped = CHR ''t'' then CHR 0x09
      else if escaped = CHR ''r'' then CHR 0x0D
      else escaped)"

function readString_loop :: "char \<Rightarrow> string \<Rightarrow> lexer \<Rightarrow> string \<times> lexer" where
  "readString_loop quote val lx =
     (if lx_rest lx \<noteq> [] \<and> current lx \<noteq> quote then
        (if current lx = CHR 0x5C then
           (case advance (snd (advance lx)) of
              (escaped, lx2) \<Rightarrow> readString_loop quote (val @ [escape_char escaped]) lx2)
         else (case advance lx of (ch, lx1) \<Rightarrow> readString_loop quote (val @ [ch]) lx1))
      else (val, lx))"
  by pat_completeness auto
termination
  by (relation "measure (\<lambda>(quote, val, lx). length (lx_rest lx))")
     (auto simp: advance_def Let_def split: if_splits)

declare readString_loop.simps [simp del]

definition readString :: "lexer \<Rightarrow> lexer_error + token \<times> lexer" where
  "readString lx =
     (case advance lx of
        (quote, lx1) \<Rightarrow>
          (case readString_loop quote [] lx1 of
             (val, lx2) \<Rightarrow>
               if lx_rest lx2 = [] then Inl (LexerError UnterminatedString (lx_line lx) (lx_column lx))
               else Inr (createToken STRING_LITERAL val (lx_line lx) (lx_column lx),
                         snd (advance lx2))))"

definition readNumber :: "lexer \<Rightarrow> token \<times> lexer" where
  "readNumber lx =
     (case advance_while isDigit lx of
        (intPart, lx1) \<Rightarrow>
          if current lx1 = CHR ''.'' \<and> isDigit (peek lx1) then
            (case advance lx1 of
               (dot, lx2) \<Rightarrow>
                 (case advance_while isDigit lx2 of
                    (fracPart, lx3) \<Rightarrow>
                      (createToken FLOAT_LITERAL (intPart @ [dot] @ fracPart) (lx_line lx) (lx_column lx),
                       lx3)))
          else (createToken INT_LITERAL intPart (lx_line lx) (lx_column lx), lx1))"

definition readIdentifier :: "lexer \<Rightarrow> token \<times> lexer" where
  "readIdentifier lx =
     (case advance_while isAlphaNumeric lx of
        (val, lx1) \<Rightarrow>
          if val = ''create'' \<and> current lx1 = CHR '':'' then
            (createToken CREATE ''create:'' (lx_line lx) (lx_column lx), snd (advance lx1))
          else
            (case keyword_table val of
               Some keywordType \<Rightarrow> (createToken keywordType val (lx_line lx) (lx_column lx), lx1)
             | None \<Rightarrow> (createToken IDENTIFIER val (lx_line lx) (lx_column lx), lx1)))"

definition readDirective :: "lexer \<Rightarrow> lexer_error + token \<times> lexer" where
  "readDirective lx =
     (case advance_while isAlphaNumeric (snd (advance lx)) of
        (name, lx1) \<Rightarrow>
          if CHR ''@'' # name = ''@VoidApp'' then
            Inr (createToken VOID_APP (CHR ''@'' # name) (lx_line lx) (lx_column lx), lx1)
          else if CHR ''@'' # name = ''@VoidEnd'' then
            Inr (createToken VOID_END (CHR ''@'' # name) (lx_line lx) (lx_column lx), lx1)
          else Inl (LexerError (UnknownDirective (CHR ''@'' # name)) (lx_line lx) (lx_column lx)))"

text \<open>The two tables of \<^verbatim>\<open>tokenize\<close>: two-character operators, then single characters.\<close>

definition twoCharOperators :: "string \<Rightarrow> tokentype option" where
  "twoCharOperators = map_of
     [(''**'', POWER), (''=='', EQUALS), (''!='', NOT_EQUALS), (''<='', LESS_EQ),
      (''>='', GREATER_EQ), (''&&'', AND), (''||'', OR)]"

definition singleCharOperators :: "char \<Rightarrow> tokentype option" where
  "singleCharOperators = map_of
     [(CHR ''+'', PLUS), (CHR ''-'', MINUS), (CHR ''*'', MULTIPLY), (CHR ''/'', DIVIDE),
      (CHR ''%'', MODULO), (CHR ''='', ASSIGN), (CHR ''<'', LESS), (CHR ''>'', GREATER),
      (CHR ''!'', NOT), (CHR ''('', LPAREN), (CHR '')'', RPAREN), (CHR ''{'', LBRACE),
      (CHR ''}'', RBRACE), (CHR ''['', LBRACKET), (CHR '']'', RBRACKET), (CHR ''.'', DOT),
      (CHR '';'', SEMICOLON), (CHR '','', COMMA), (CHR '':'', COLON)]"

text \<open>
  One round of the loop of \<^verbatim>\<open>tokenize\<close>, after white space was skipped and with input
  left: the token pushed (none after a comment) and the cursor after it, or the error.
\<close>

definition tokenize_step :: "lexer \<Rightarrow> lexer_error + token option \<times> lexer" where
  "tokenize_step lx =
     (let ch = current lx; startLine = lx_line lx; startCol = lx_column lx in
      if ch = CHR ''/'' \<and> peek lx = CHR ''/'' then Inr (None, skipSingleLineComment lx)
      else if ch = CHR ''#'' \<and> peek lx = CHR ''*'' then
        (case skipMultiLineComment lx of Inl e \<Rightarrow> Inl e | Inr lx1 \<Rightarrow> Inr (None, lx1))
      else if ch = CHR ''@'' then
        (case readDirective lx of Inl e \<Rightarrow> Inl e | Inr (t, lx1) \<Rightarrow> Inr (Some t, lx1))
      else if ch = CHR 0x22 \<or> ch = CHR 0x27 then
        (case readString lx of Inl e \<Rightarrow> Inl e | Inr (t, lx1) \<Rightarrow> Inr (Some t, lx1))
      else if isDigit ch then (case readNumber lx of (t, lx1) \<Rightarrow> Inr (Some t, lx1))
      else if isAlpha ch then (case readIdentifier lx of (t, lx1) \<Rightarrow> Inr (Some t, lx1))
      else
        (case twoCharOperators [ch, peek lx] of
           Some ty \<Rightarrow>
             Inr (Some (createToken ty [ch, peek lx] startLine startCol),
                  snd (advance (snd (advance lx))))
         | None \<Rightarrow>
            (case singleCharOperators ch of
               Some ty \<Rightarrow> Inr (Some (createToken ty [ch] startLine startCol), snd (advance lx))
             | None \<Rightarrow> Inl (LexerError (UnexpectedChar ch) (lx_line lx) (lx_column lx)))))"

lemma skipMultiLineComment_loop_rest_le:
  "skipMultiLineComment_loop lx = Inr lx' \<Longrightarrow> length (lx_rest lx') \<le> length (lx_rest lx)"
proof (induction lx rule: skipMultiLineComment_loop.induct)
  case (1 lx)
  show ?case
  proof (cases "lx_rest lx \<noteq> []")
    case ne: True
    show ?thesis
    proof (cases "current lx = CHR ''*'' \<and> peek lx = CHR ''#''")
      case True
      with ne "1.prems" have "lx' = snd (advance (snd (advance lx)))"
        by (subst (asm) skipMultiLineComment_loop.simps) simp
      then show ?thesis
        using advance_rest_le[of "snd (advance lx)"] advance_rest_le[of lx] by simp
    next
      case False
      with ne "1.prems" have "skipMultiLineComment_loop (snd (advance lx)) = Inr lx'"
        by (subst (asm) skipMultiLineComment_loop.simps) simp
      from "1.IH"[OF ne False this] advance_rest_le[of lx] show ?thesis by simp
    qed
  next
    case False
    with "1.prems" show ?thesis
      by (subst (asm) skipMultiLineComment_loop.simps) simp
  qed
qed

lemma readString_loop_rest_le:
  "length (lx_rest (snd (readString_loop quote val lx))) \<le> length (lx_rest lx)"
proof (induction quote val lx rule: readString_loop.induct)
  case (1 quote val lx)
  show ?case
  proof (cases "lx_rest lx \<noteq> [] \<and> current lx \<noteq> quote")
    case c: True
    show ?thesis
    proof (cases "current lx = CHR 0x5C")
      case True
      obtain escaped lx2 where a: "advance (snd (advance lx)) = (escaped, lx2)"
        by (cases "advance (snd (advance lx))")
      have "length (lx_rest lx2) \<le> length (lx_rest lx)"
        using advance_rest_le[of "snd (advance lx)"] advance_rest_le[of lx] a by simp
      moreover have "length (lx_rest (snd (readString_loop quote (val @ [escape_char escaped]) lx2)))
          \<le> length (lx_rest lx2)"
        using "1.IH"(1)[OF c True a[symmetric]] by simp
      ultimately show ?thesis
        using c True a by (subst readString_loop.simps) auto
    next
      case False
      obtain ch lx1 where a: "advance lx = (ch, lx1)" by (cases "advance lx")
      have "length (lx_rest lx1) \<le> length (lx_rest lx)"
        using advance_rest_le[of lx] a by simp
      moreover have "length (lx_rest (snd (readString_loop quote (val @ [ch]) lx1))) \<le> length (lx_rest lx1)"
        using "1.IH"(2)[OF c False a[symmetric]] by simp
      ultimately show ?thesis
        using c False a by (subst readString_loop.simps) auto
    qed
  next
    case False
    then show ?thesis by (subst readString_loop.simps) auto
  qed
qed

lemma tokenize_step_progress:
  assumes ne: "lx_rest lx \<noteq> []" and step: "tokenize_step lx = Inr (t, lx')"
  shows "length (lx_rest lx') < length (lx_rest lx)"
proof -
  have adv1: "length (lx_rest (snd (advance lx))) < length (lx_rest lx)"
    by (rule advance_rest_less[OF ne])
  have adv2: "length (lx_rest (snd (advance (snd (advance lx))))) < length (lx_rest lx)"
    using adv1 advance_rest_le[of "snd (advance lx)"] by simp
  consider (line) "current lx = CHR ''/'' \<and> peek lx = CHR ''/''"
    | (multi) "\<not> (current lx = CHR ''/'' \<and> peek lx = CHR ''/'')" "current lx = CHR ''#'' \<and> peek lx = CHR ''*''"
    | (dir) "\<not> (current lx = CHR ''/'' \<and> peek lx = CHR ''/'')" "\<not> (current lx = CHR ''#'' \<and> peek lx = CHR ''*'')"
        "current lx = CHR ''@''"
    | (str) "\<not> (current lx = CHR ''/'' \<and> peek lx = CHR ''/'')" "\<not> (current lx = CHR ''#'' \<and> peek lx = CHR ''*'')"
        "current lx \<noteq> CHR ''@''" "current lx = CHR 0x22 \<or> current lx = CHR 0x27"
    | (num) "\<not> (current lx = CHR ''/'' \<and> peek lx = CHR ''/'')" "\<not> (current lx = CHR ''#'' \<and> peek lx = CHR ''*'')"
        "current lx \<noteq> CHR ''@''" "\<not> (current lx = CHR 0x22 \<or> current lx = CHR 0x27)" "isDigit (current lx)"
    | (ident) "\<not> (current lx = CHR ''/'' \<and> peek lx = CHR ''/'')" "\<not> (current lx = CHR ''#'' \<and> peek lx = CHR ''*'')"
        "current lx \<noteq> CHR ''@''" "\<not> (current lx = CHR 0x22 \<or> current lx = CHR 0x27)" "\<not> isDigit (current lx)"
        "isAlpha (current lx)"
    | (op) "\<not> (current lx = CHR ''/'' \<and> peek lx = CHR ''/'')" "\<not> (current lx = CHR ''#'' \<and> peek lx = CHR ''*'')"
        "current lx \<noteq> CHR ''@''" "\<not> (current lx = CHR 0x22 \<or> current lx = CHR 0x27)" "\<not> isDigit (current lx)"
        "\<not> isAlpha (current lx)"
    by blast
  then show ?thesis
  proof cases
    case line
    then have "lx' = skipSingleLineComment lx"
      using step by (simp add: tokenize_step_def)
    moreover have "current lx \<noteq> CHR 0x0A" using line by simp
    ultimately show ?thesis
      using advance_while_rest_less[OF ne, of "\<lambda>ch. ch \<noteq> CHR 0x0A"]
      by (simp add: skipSingleLineComment_def)
  next
    case multi
    then have "skipMultiLineComment lx = Inr lx'"
      using step by (simp add: tokenize_step_def split: sum.splits)
    then show ?thesis
      using skipMultiLineComment_loop_rest_le[of "snd (advance (snd (advance lx)))" lx'] adv2
      by (simp add: skipMultiLineComment_def)
  next
    case dir
    then obtain tk where "readDirective lx = Inr (tk, lx')"
      using step by (auto simp: tokenize_step_def split: sum.splits)
    then have "lx' = snd (advance_while isAlphaNumeric (snd (advance lx)))"
      by (auto simp: readDirective_def split: prod.splits if_splits)
    then show ?thesis
      using advance_while_rest_le[of isAlphaNumeric "snd (advance lx)"] adv1 by simp
  next
    case str
    then obtain tk where "readString lx = Inr (tk, lx')"
      using step by (auto simp: tokenize_step_def split: sum.splits)
    then have "lx' = snd (advance (snd (readString_loop (fst (advance lx)) [] (snd (advance lx)))))"
      by (auto simp: readString_def split: prod.splits if_splits)
    then show ?thesis
      using readString_loop_rest_le[of "fst (advance lx)" "[]" "snd (advance lx)"] adv1
        advance_rest_le[of "snd (readString_loop (fst (advance lx)) [] (snd (advance lx)))"]
      by simp
  next
    case num
    then obtain tk where rn: "readNumber lx = (tk, lx')"
      using step by (auto simp: tokenize_step_def split: prod.splits)
    let ?lx1 = "snd (advance_while isDigit lx)"
    have l1: "length (lx_rest ?lx1) < length (lx_rest lx)"
      using advance_while_rest_less[OF ne, of isDigit] num by simp
    have "lx' = ?lx1 \<or> lx' = snd (advance_while isDigit (snd (advance ?lx1)))"
      using rn by (auto simp: readNumber_def split: prod.splits if_splits)
    then show ?thesis
      using l1 advance_while_rest_le[of isDigit "snd (advance ?lx1)"] advance_rest_le[of ?lx1]
      by auto
  next
    case ident
    then obtain tk where ri: "readIdentifier lx = (tk, lx')"
      using step by (auto simp: tokenize_step_def split: prod.splits)
    let ?lx1 = "snd (advance_while isAlphaNumeric lx)"
    have l1: "length (lx_rest ?lx1) < length (lx_rest lx)"
      using advance_while_rest_less[OF ne, of isAlphaNumeric] ident by (simp add: isAlphaNumeric_def)
    have "lx' = ?lx1 \<or> lx' = snd (advance ?lx1)"
      using ri by (auto simp: readIdentifier_def split: prod.splits if_splits option.splits)
    then show ?thesis
      using l1 advance_rest_le[of ?lx1] by auto
  next
    case op
    then have "lx' = snd (advance lx) \<or> lx' = snd (advance (snd (advance lx)))"
      using step by (auto simp: tokenize_step_def Let_def split: option.splits)
    then show ?thesis using adv1 adv2 by auto
  qed
qed

lemma skipWhitespace_rest_le: "length (lx_rest (skipWhitespace lx)) \<le> length (lx_rest lx)"
  by (simp add: skipWhitespace_def advance_while_rest_le)

text \<open>
  The loop of \<^verbatim>\<open>tokenize\<close> and the end-of-input token pushed after it.
\<close>

function tokenize_loop :: "lexer \<Rightarrow> token list \<Rightarrow> lexer_error + token list" where
  "tokenize_loop lx toks =
     (if lx_rest (skipWhitespace lx) = []
      then Inr (toks @ [createToken EOF [] (lx_line (skipWhitespace lx)) (lx_column (skipWhitespace lx))])
      else (case tokenize_step (skipWhitespace lx) of
              Inl e \<Rightarrow> Inl e
            | Inr (t, lx2) \<Rightarrow> tokenize_loop lx2 (case t of None \<Rightarrow> toks | Some tk \<Rightarrow> toks @ [tk])))"
  by pat_completeness auto
termination
proof (relation "measure (\<lambda>(lx, toks). length (lx_rest lx))")
  show "wf (measure (\<lambda>(lx, toks). length (lx_rest lx)))" by simp
next
  fix lx :: lexer and toks :: "token list" and x2 x y
  assume "lx_rest (skipWhitespace lx) \<noteq> []"
    and "tokenize_step (skipWhitespace lx) = Inr x2" and "(x, y) = x2"
  then have "length (lx_rest y) < length (lx_rest (skipWhitespace lx))"
    using tokenize_step_progress[of "skipWhitespace lx" x y] by simp
  then show "((y, case x of None \<Rightarrow> toks | Some tk \<Rightarrow> toks @ [tk]), lx, toks)
      \<in> measure (\<lambda>(lx, toks). length (lx_rest lx))"
    using skipWhitespace_rest_le[of lx] by simp
qed

declare tokenize_loop.simps [simp del]

definition tokenize :: "string \<Rightarrow> lexer_error + token list" where
  "tokenize source = tokenize_loop \<lparr>lx_rest = source, lx_line = 1, lx_column = 1\<rparr> []"

section \<open>Parser\<close>

datatype parse_msg =
    ExpectedToken tokentype
  | UnexpectedTopLevel string
  | UnexpectedStatement string
  | ExpectedVarType string
  | MissingSemicolon
  | ExpectedMethod string
  | ExpectedCollectionType string
  | RandArity
  | UnexpectedAfterIdentifier string
  | UnexpectedInExpression string

datatype parse_error = ParseError parse_msg nat nat

text \<open>
  The parser's cursor is the list of tokens from \<^verbatim>\<open>pos\<close> on. A parsing method returns
  its result with the tokens left, or the error. The methods are recursive through
  \<^verbatim>\<open>parseExpression\<close> and \<^verbatim>\<open>parseBlock\<close>; here each method takes those two as
  parameters (\<open>pe\<close>, \<open>pb\<close>) and a budget for its own loops, and \<open>parseExpression\<close>
  and \<open>parseBlock\<close> close the recursion with a budget that bounds its depth.
  \<open>None\<close> means the budget ran out.
\<close>

type_synonym 'a presult = "(parse_error + 'a \<times> token list) option"

definition pbind :: "'a presult \<Rightarrow> ('a \<Rightarrow> token list \<Rightarrow> 'b presult) \<Rightarrow> 'b presult" where
  "pbind m f =
     (case m of
        None \<Rightarrow> None
      | Some (Inl e) \<Rightarrow> Some (Inl e)
      | Some (Inr (x, ts)) \<Rightarrow> f x ts)"

definition preturn :: "'a \<Rightarrow> token list \<Rightarrow> 'a presult" where
  "preturn x ts = Some (Inr (x, ts))"

definition tok_current :: "token list \<Rightarrow> token" where
  "tok_current ts = (case ts of [] \<Rightarrow> Token EOF [] 0 0 | t # _ \<Rightarrow> t)"

definition tok_advance :: "token list \<Rightarrow> token list" where
  "tok_advance ts = tl ts"

definition parse_fail :: "parse_msg \<Rightarrow> token list \<Rightarrow> 'a presult" where
  "parse_fail msg ts =
     Some (Inl (ParseError msg (tok_line (tok_current ts)) (tok_column (tok_current ts))))"

definition check :: "tokentype \<Rightarrow> token list \<Rightarrow> bool" where
  "check ty ts \<longleftrightarrow> tok_type (tok_current ts) = ty"

definition expect :: "tokentype \<Rightarrow> token list \<Rightarrow> token presult" where
  "expect ty ts =
     (if tok_type (tok_current ts) \<noteq> ty then parse_fail (ExpectedToken ty) ts
      else preturn (tok_current ts) (tok_advance ts))"

text \<open>\<^verbatim>\<open>while (this.match(TokenType.COMMA)) { xs.push(this.parseExpression()); }\<close>\<close>

primrec comma_loop :: "(token list \<Rightarrow> node presult) \<Rightarrow> nat \<Rightarrow> node list \<Rightarrow> token list \<Rightarrow> (node list) presult" where
  "comma_loop pe 0 acc ts = (if check COMMA ts then None else preturn acc ts)"
| "comma_loop pe (Suc n) acc ts =
     (if check COMMA ts
      then pbind (pe (tok_advance ts)) (\<lambda>x ts1. comma_loop pe n (acc @ [x]) ts1)
      else preturn acc ts)"

text \<open>
  An argument list up to the closing token:
  \<^verbatim>\<open>if (!this.check(close)) { xs.push(parseExpression()); while (match(COMMA)) \<dots> }\<close>
\<close>

definition parseExpressionList :: "(token list \<Rightarrow> node presult) \<Rightarrow> nat \<Rightarrow> tokentype \<Rightarrow> token list \<Rightarrow> (node list) presult" where
  "parseExpressionList pe fuel close ts =
     (if check close ts then preturn [] ts
      else pbind (pe ts) (\<lambda>x ts1. comma_loop pe fuel [x] ts1))"

definition parseListLiteral :: "(token list \<Rightarrow> node presult) \<Rightarrow> nat \<Rightarrow> token list \<Rightarrow> node presult" where
  "parseListLiteral pe fuel ts =
     pbind (expect LBRACKET ts) (\<lambda>_ ts1.
     pbind (parseExpressionList pe fuel RBRACKET ts1) (\<lambda>elements ts2.
     pbind (expect RBRACKET ts2) (\<lambda>_ ts3.
     preturn (ListLiteralNode elements) ts3)))"

definition parseDictEntry :: "(token list \<Rightarrow> node presult) \<Rightarrow> token list \<Rightarrow> (node \<times> node) presult" where
  "parseDictEntry pe ts =
     pbind (pe ts) (\<lambda>key ts1.
     pbind (expect COLON ts1) (\<lambda>_ ts2.
     pbind (pe ts2) (\<lambda>v ts3.
     preturn (key, v) ts3)))"

primrec dict_loop :: "(token list \<Rightarrow> node presult) \<Rightarrow> nat \<Rightarrow> (node \<times> node) list \<Rightarrow> token list \<Rightarrow> ((node \<times> node) list) presult" where
  "dict_loop pe 0 acc ts = (if check COMMA ts then None else preturn acc ts)"
| "dict_loop pe (Suc n) acc ts =
     (if check COMMA ts
      then pbind (parseDictEntry pe (tok_advance ts)) (\<lambda>entry ts1. dict_loop pe n (acc @ [entry]) ts1)
      else preturn acc ts)"

definition parseDictLiteral :: "(token list \<Rightarrow> node presult) \<Rightarrow> nat \<Rightarrow> token list \<Rightarrow> node presult" where
  "parseDictLiteral pe fuel ts =
     pbind (expect LBRACE ts) (\<lambda>_ ts1.
     pbind (if check RBRACE ts1 then preturn [] ts1
            else pbind (parseDictEntry pe ts1) (\<lambda>entry ts2. dict_loop pe fuel [entry] ts2)) (\<lambda>entries ts3.
     pbind (expect RBRACE ts3) (\<lambda>_ ts4.
     preturn (DictLiteralNode entries) ts4)))"

definition parseWriteExpr :: "(token list \<Rightarrow> node presult) \<Rightarrow> token list \<Rightarrow> node presult" where
  "parseWriteExpr pe ts =
     pbind (expect WRITE ts) (\<lambda>_ ts1.
     pbind (expect LPAREN ts1) (\<lambda>_ ts2.
     pbind (pe ts2) (\<lambda>prompt ts3.
     pbind (expect RPAREN ts3) (\<lambda>_ ts4.
     preturn (WriteNode prompt) ts4))))"

definition parseRandCall :: "(token list \<Rightarrow> node presult) \<Rightarrow> token list \<Rightarrow> node presult" where
  "parseRandCall pe ts =
     pbind (expect RAND ts) (\<lambda>_ ts1.
     pbind (expect LPAREN ts1) (\<lambda>_ ts2.
     pbind (pe ts2) (\<lambda>lo ts3.
     pbind (expect COMMA ts3) (\<lambda>_ ts4.
     pbind (pe ts4) (\<lambda>hi ts5.
     pbind (expect RPAREN ts5) (\<lambda>_ ts6.
     preturn (RandCallNode lo hi) ts6))))))"

definition parsePrimary :: "(token list \<Rightarrow> node presult) \<Rightarrow> nat \<Rightarrow> token list \<Rightarrow> node presult" where
  "parsePrimary pe fuel ts =
     (let tk = tok_current ts; ty = tok_type tk in
      if ty = INT_LITERAL then preturn (NumberLiteralNode (parseInt (tok_value tk))) (tok_advance ts)
      else if ty = FLOAT_LITERAL then preturn (FloatLiteralNode (parseFloat (tok_value tk))) (tok_advance ts)
      else if ty = STRING_LITERAL then preturn (StringLiteralNode (tok_value tk)) (tok_advance ts)
      else if ty = BOOL_LITERAL then preturn (BoolLiteralNode (tok_value tk = ''true'')) (tok_advance ts)
      else if ty = LBRACKET then parseListLiteral pe fuel ts
      else if ty = LBRACE then parseDictLiteral pe fuel ts
      else if ty = IDENTIFIER then
        (if check LPAREN (tok_advance ts) then
           pbind (parseExpressionList pe fuel RPAREN (tok_advance (tok_advance ts))) (\<lambda>args ts1.
           pbind (expect RPAREN ts1) (\<lambda>_ ts2.
           preturn (FunctionCallNode (tok_value tk) args) ts2))
         else preturn (IdentifierNode (tok_value tk)) (tok_advance ts))
      else if ty = WRITE then parseWriteExpr pe ts
      else if ty = LPAREN then
        pbind (pe (tok_advance ts)) (\<lambda>expr ts1.
        pbind (expect RPAREN ts1) (\<lambda>_ ts2.
        preturn expr ts2))
      else if ty = RAND then parseRandCall pe ts
      else parse_fail (UnexpectedInExpression (tok_value tk)) ts)"

text \<open>The index chain of \<^verbatim>\<open>parsePostfix\<close>: \<^verbatim>\<open>while (this.check(LBRACKET)) \<dots>\<close>\<close>

primrec postfix_loop :: "(token list \<Rightarrow> node presult) \<Rightarrow> nat \<Rightarrow> node \<Rightarrow> token list \<Rightarrow> node presult" where
  "postfix_loop pe 0 nd ts = (if check LBRACKET ts then None else preturn nd ts)"
| "postfix_loop pe (Suc n) nd ts =
     (if check LBRACKET ts then
        pbind (pe (tok_advance ts)) (\<lambda>index ts1.
        pbind (expect RBRACKET ts1) (\<lambda>_ ts2.
        postfix_loop pe n (IndexAccessNode nd index) ts2))
      else preturn nd ts)"

definition parsePostfix :: "(token list \<Rightarrow> node presult) \<Rightarrow> nat \<Rightarrow> token list \<Rightarrow> node presult" where
  "parsePostfix pe fuel ts = pbind (parsePrimary pe fuel ts) (\<lambda>nd ts1. postfix_loop pe fuel nd ts1)"

primrec parseUnary :: "(token list \<Rightarrow> node presult) \<Rightarrow> nat \<Rightarrow> token list \<Rightarrow> node presult" where
  "parseUnary pe 0 ts = (if check MINUS ts \<or> check NOT ts then None else parsePostfix pe 0 ts)"
| "parseUnary pe (Suc n) ts =
     (if check MINUS ts \<or> check NOT ts then
        pbind (parseUnary pe n (tok_advance ts)) (\<lambda>operand ts1.
        preturn (UnaryExprNode (tok_value (tok_current ts)) operand) ts1)
      else parsePostfix pe (Suc n) ts)"

primrec parsePower :: "(token list \<Rightarrow> node presult) \<Rightarrow> nat \<Rightarrow> token list \<Rightarrow> node presult" where
  "parsePower pe 0 ts =
     pbind (parseUnary pe 0 ts) (\<lambda>left ts1. if check POWER ts1 then None else preturn left ts1)"
| "parsePower pe (Suc n) ts =
     pbind (parseUnary pe (Suc n) ts) (\<lambda>left ts1.
       if check POWER ts1 then
         pbind (parsePower pe n (tok_advance ts1)) (\<lambda>right ts2.
         preturn (BinaryExprNode (tok_value (tok_current ts1)) left right) ts2)
       else preturn left ts1)"

text \<open>
  The loop shared by the left-associative levels:
  \<^verbatim>\<open>while (this.check(op1) || \<dots>) { op = advance().value; right = operand(); left = {\<dots>} }\<close>
\<close>

primrec binary_loop :: "tokentype list \<Rightarrow> (token list \<Rightarrow> node presult) \<Rightarrow> nat \<Rightarrow> node \<Rightarrow> token list \<Rightarrow> node presult" where
  "binary_loop ops operand 0 left ts =
     (if tok_type (tok_current ts) \<in> set ops then None else preturn left ts)"
| "binary_loop ops operand (Suc n) left ts =
     (if tok_type (tok_current ts) \<in> set ops then
        pbind (operand (tok_advance ts)) (\<lambda>right ts1.
        binary_loop ops operand n (BinaryExprNode (tok_value (tok_current ts)) left right) ts1)
      else preturn left ts)"

definition parseMultiplication :: "(token list \<Rightarrow> node presult) \<Rightarrow> nat \<Rightarrow> token list \<Rightarrow> node presult" where
  "parseMultiplication pe fuel ts =
     pbind (parsePower pe fuel ts) (\<lambda>left ts1.
     binary_loop [MULTIPLY, DIVIDE, MODULO] (parsePower pe fuel) fuel left ts1)"

definition parseAddition :: "(token list \<Rightarrow> node presult) \<Rightarrow> nat \<Rightarrow> token list \<Rightarrow> node presult" where
  "parseAddition pe fuel ts =
     pbind (parseMultiplication pe fuel ts) (\<lambda>left ts1.
     binary_loop [PLUS, MINUS] (parseMultiplication pe fuel) fuel left ts1)"

definition parseComparison :: "(token list \<Rightarrow> node presult) \<Rightarrow> nat \<Rightarrow> token list \<Rightarrow> node presult" where
  "parseComparison pe fuel ts =
     pbind (parseAddition pe fuel ts) (\<lambda>left ts1.
     binary_loop [LESS, GREATER, LESS_EQ, GREATER_EQ] (parseAddition pe fuel) fuel left ts1)"

definition parseEquality :: "(token list \<Rightarrow> node presult) \<Rightarrow> nat \<Rightarrow> token list \<Rightarrow> node presult" where
  "parseEquality pe fuel ts =
     pbind (parseComparison pe fuel ts) (\<lambda>left ts1.
     binary_loop [EQUALS, NOT_EQUALS] (parseComparison pe fuel) fuel left ts1)"

definition parseAnd :: "(token list \<Rightarrow> node presult) \<Rightarrow> nat \<Rightarrow> token list \<Rightarrow> node presult" where
  "parseAnd pe fuel ts =
     pbind (parseEquality pe fuel ts) (\<lambda>left ts1.
     binary_loop [AND] (parseEquality pe fuel) fuel left ts1)"

definition parseOr :: "(token list \<Rightarrow> node presult) \<Rightarrow> nat \<Rightarrow> token list \<Rightarrow> node presult" where
  "parseOr pe fuel ts =
     pbind (parseAnd pe fuel ts) (\<lambda>left ts1.
     binary_loop [OR] (parseAnd pe fuel) fuel left ts1)"

primrec parseExpression :: "nat \<Rightarrow> token list \<Rightarrow> node presult" where
  "parseExpression 0 ts = None"
| "parseExpression (Suc n) ts = parseOr (parseExpression n) n ts"

definition parseEcho :: "nat \<Rightarrow> token list \<Rightarrow> node presult" where
  "parseEcho fuel ts =
     pbind (expect ECHO ts) (\<lambda>_ ts1.
     pbind (expect LPAREN ts1) (\<lambda>_ ts2.
     pbind (parseExpressionList (parseExpression fuel) fuel RPAREN ts2) (\<lambda>expressions ts3.
     pbind (expect RPAREN ts3) (\<lambda>_ ts4.
     pbind (expect SEMICOLON ts4) (\<lambda>_ ts5.
     preturn (EchoNode expressions) ts5)))))"

definition varType_of :: "tokentype \<Rightarrow> string option" where
  "varType_of = map_of
     [(TYPE_STRING, ''string''), (TYPE_INT, ''int''), (TYPE_FLOAT, ''float''),
      (TYPE_BOOL, ''bool''), (TYPE_LIST, ''list''), (TYPE_DICT, ''dict'')]"

definition parseCreateVar :: "nat \<Rightarrow> token list \<Rightarrow> node presult" where
  "parseCreateVar fuel ts =
     pbind (expect CREATE ts) (\<lambda>_ ts1.
       case varType_of (tok_type (tok_current ts1)) of
         None \<Rightarrow> parse_fail (ExpectedVarType (tok_value (tok_current ts1))) ts1
       | Some varType \<Rightarrow>
           pbind (expect IDENTIFIER (tok_advance ts1)) (\<lambda>nameToken ts2.
           pbind (expect ASSIGN ts2) (\<lambda>_ ts3.
           pbind (parseExpression fuel ts3) (\<lambda>v ts4.
             if check SEMICOLON ts4
             then preturn (CreateVarNode varType (tok_value nameToken) v) (tok_advance ts4)
             else parse_fail MissingSemicolon ts4))))"

definition method_of :: "tokentype \<Rightarrow> string option" where
  "method_of = map_of [(ADD, ''add''), (DELETE, ''delete''), (CLEAR, ''clear'')]"

definition collectionType_of :: "tokentype \<Rightarrow> string option" where
  "collectionType_of = map_of [(TYPE_LIST, ''list''), (TYPE_DICT, ''dict'')]"

text \<open>
  \<^verbatim>\<open>parseIdentifierStatement\<close>: a method call, an assignment, an indexed assignment or a
  call. For \<^verbatim>\<open>name[index] = expr;\<close> the index is parsed and dropped, and the node built is
  an \<^verbatim>\<open>AssignVar\<close> whose name is the identifier followed by \<^verbatim>\<open>[]\<close>.
\<close>

definition parseIdentifierStatement :: "nat \<Rightarrow> token list \<Rightarrow> node presult" where
  "parseIdentifierStatement fuel ts =
     (let name = tok_current ts; ts1 = tok_advance ts; pe = parseExpression fuel in
      if check DOT ts1 then
        (case method_of (tok_type (tok_current (tok_advance ts1))) of
           None \<Rightarrow> parse_fail (ExpectedMethod (tok_value (tok_current (tok_advance ts1)))) (tok_advance ts1)
         | Some method \<Rightarrow>
             pbind (expect COLON (tok_advance (tok_advance ts1))) (\<lambda>_ ts2.
               case collectionType_of (tok_type (tok_current ts2)) of
                 None \<Rightarrow> parse_fail (ExpectedCollectionType (tok_value (tok_current ts2))) ts2
               | Some collectionType \<Rightarrow>
                   pbind (expect LPAREN (tok_advance ts2)) (\<lambda>_ ts3.
                   pbind (if check RPAREN ts3 then preturn [] ts3
                          else pbind (pe ts3) (\<lambda>arg ts4.
                               pbind (if method = ''add'' \<and> collectionType = ''dict'' \<and> check COLON ts4
                                      then pbind (pe (tok_advance ts4)) (\<lambda>v ts5. preturn [arg, v] ts5)
                                      else preturn [arg] ts4) (\<lambda>args ts6.
                               comma_loop pe fuel args ts6))) (\<lambda>args ts7.
                   pbind (expect RPAREN ts7) (\<lambda>_ ts8.
                   pbind (expect SEMICOLON ts8) (\<lambda>_ ts9.
                   preturn (MethodCallNode (tok_value name) method collectionType args) ts9))))))
      else if check ASSIGN ts1 then
        pbind (pe (tok_advance ts1)) (\<lambda>v ts2.
        pbind (expect SEMICOLON ts2) (\<lambda>_ ts3.
        preturn (AssignVarNode (tok_value name) v) ts3))
      else if check LBRACKET ts1 then
        pbind (pe (tok_advance ts1)) (\<lambda>index ts2.
        pbind (expect RBRACKET ts2) (\<lambda>_ ts3.
        pbind (expect ASSIGN ts3) (\<lambda>_ ts4.
        pbind (pe ts4) (\<lambda>v ts5.
        pbind (expect SEMICOLON ts5) (\<lambda>_ ts6.
        preturn (AssignVarNode (tok_value name @ ''[]'') v) ts6)))))
      else if check LPAREN ts1 then
        pbind (parseExpressionList pe fuel RPAREN (tok_advance ts1)) (\<lambda>args ts2.
        pbind (expect RPAREN ts2) (\<lambda>_ ts3.
        pbind (expect SEMICOLON ts3) (\<lambda>_ ts4.
          if tok_value name = ''rand'' then
            (if length args \<noteq> 2 then parse_fail RandArity ts4
             else preturn (RandCallNode (args ! 0) (args ! 1)) ts4)
          else preturn (FunctionCallNode (tok_value name) args) ts4)))
      else parse_fail (UnexpectedAfterIdentifier (tok_value name)) ts1)"

primrec parseIf :: "(token list \<Rightarrow> (node list) presult) \<Rightarrow> nat \<Rightarrow> token list \<Rightarrow> node presult" where
  "parseIf pb 0 ts = None"
| "parseIf pb (Suc n) ts =
     pbind (expect IF ts) (\<lambda>_ ts1.
     pbind (expect LPAREN ts1) (\<lambda>_ ts2.
     pbind (parseExpression (Suc n) ts2) (\<lambda>condition ts3.
     pbind (expect RPAREN ts3) (\<lambda>_ ts4.
     pbind (pb ts4) (\<lambda>thenBranch ts5.
       if check ELSE ts5 then
         (if check IF (tok_advance ts5) then
            pbind (parseIf pb n (tok_advance ts5)) (\<lambda>el ts6.
            preturn (IfNode condition thenBranch (Some el)) ts6)
          else
            pbind (pb (tok_advance ts5)) (\<lambda>stmts ts6.
            preturn (IfNode condition thenBranch (Some (BlockNode stmts))) ts6))
       else preturn (IfNode condition thenBranch None) ts5)))))"

definition parseWhile :: "(token list \<Rightarrow> (node list) presult) \<Rightarrow> nat \<Rightarrow> token list \<Rightarrow> node presult" where
  "parseWhile pb fuel ts =
     pbind (expect WHILE ts) (\<lambda>_ ts1.
     pbind (expect LPAREN ts1) (\<lambda>_ ts2.
     pbind (parseExpression fuel ts2) (\<lambda>condition ts3.
     pbind (expect RPAREN ts3) (\<lambda>_ ts4.
     pbind (pb ts4) (\<lambda>stmts ts5.
     preturn (WhileNode condition stmts) ts5)))))"

text \<open>\<^verbatim>\<open>name = expr\<close> as the init and the update of \<^verbatim>\<open>parseFor\<close> read it.\<close>

definition parseForAssign :: "nat \<Rightarrow> token list \<Rightarrow> node presult" where
  "parseForAssign fuel ts =
     pbind (expect IDENTIFIER ts) (\<lambda>name ts1.
     pbind (expect ASSIGN ts1) (\<lambda>_ ts2.
     pbind (parseExpression fuel ts2) (\<lambda>v ts3.
     preturn (AssignVarNode (tok_value name) v) ts3)))"

definition parseFor :: "(token list \<Rightarrow> (node list) presult) \<Rightarrow> nat \<Rightarrow> token list \<Rightarrow> node presult" where
  "parseFor pb fuel ts =
     pbind (expect FOR ts) (\<lambda>_ ts1.
     pbind (expect LPAREN ts1) (\<lambda>_ ts2.
     pbind (if check CREATE ts2 then
              pbind (parseCreateVar fuel ts2) (\<lambda>i ts3. preturn (Some i) ts3)
            else if \<not> check SEMICOLON ts2 then
              pbind (parseForAssign fuel ts2) (\<lambda>i ts3.
              pbind (expect SEMICOLON ts3) (\<lambda>_ ts4. preturn (Some i) ts4))
            else preturn None (tok_advance ts2)) (\<lambda>init ts5.
     pbind (if check SEMICOLON ts5 then preturn (BoolLiteralNode True) ts5
            else parseExpression fuel ts5) (\<lambda>condition ts6.
     pbind (expect SEMICOLON ts6) (\<lambda>_ ts7.
     pbind (if \<not> check RPAREN ts7 then
              pbind (parseForAssign fuel ts7) (\<lambda>u ts8. preturn (Some u) ts8)
            else preturn None ts7) (\<lambda>update ts9.
     pbind (expect RPAREN ts9) (\<lambda>_ ts10.
     pbind (pb ts10) (\<lambda>stmts ts11.
     preturn (ForNode init condition update stmts) ts11))))))))"

definition parseStatement :: "(token list \<Rightarrow> (node list) presult) \<Rightarrow> nat \<Rightarrow> token list \<Rightarrow> node presult" where
  "parseStatement pb fuel ts =
     (let ty = tok_type (tok_current ts) in
      if ty = ECHO then parseEcho fuel ts
      else if ty = CREATE then parseCreateVar fuel ts
      else if ty = IDENTIFIER then parseIdentifierStatement fuel ts
      else if ty = IF then parseIf pb fuel ts
      else if ty = WHILE then parseWhile pb fuel ts
      else if ty = FOR then parseFor pb fuel ts
      else parse_fail (UnexpectedStatement (tok_value (tok_current ts))) ts)"

text \<open>\<^verbatim>\<open>while (!check(stop) && !check(EOF)) { xs.push(item()); }\<close> of \<^verbatim>\<open>parseBlock\<close> and \<^verbatim>\<open>parse\<close>.\<close>

primrec until_loop :: "tokentype \<Rightarrow> (token list \<Rightarrow> node presult) \<Rightarrow> nat \<Rightarrow> node list \<Rightarrow> token list \<Rightarrow> (node list) presult" where
  "until_loop stop item 0 acc ts =
     (if \<not> check stop ts \<and> \<not> check EOF ts then None else preturn acc ts)"
| "until_loop stop item (Suc n) acc ts =
     (if \<not> check stop ts \<and> \<not> check EOF ts
      then pbind (item ts) (\<lambda>x ts1. until_loop stop item n (acc @ [x]) ts1)
      else preturn acc ts)"

primrec parseBlock :: "nat \<Rightarrow> token list \<Rightarrow> (node list) presult" where
  "parseBlock 0 ts = None"
| "parseBlock (Suc n) ts =
     pbind (expect LBRACE ts) (\<lambda>_ ts1.
     pbind (until_loop RBRACE (parseStatement (parseBlock n) n) n [] ts1) (\<lambda>statements ts2.
     pbind (expect RBRACE ts2) (\<lambda>_ ts3.
     preturn statements ts3)))"

definition parseMain :: "nat \<Rightarrow> token list \<Rightarrow> node presult" where
  "parseMain fuel ts =
     pbind (expect MAIN ts) (\<lambda>_ ts1.
     pbind (expect LPAREN ts1) (\<lambda>_ ts2.
     pbind (expect RPAREN ts2) (\<lambda>_ ts3.
     pbind (parseBlock fuel ts3) (\<lambda>stmts ts4.
     preturn (MainNode stmts) ts4))))"

definition parseTopLevel :: "nat \<Rightarrow> token list \<Rightarrow> node presult" where
  "parseTopLevel fuel ts =
     (if check MAIN ts then parseMain fuel ts
      else parse_fail (UnexpectedTopLevel (tok_value (tok_current ts))) ts)"

definition parseProgram :: "nat \<Rightarrow> token list \<Rightarrow> programnode presult" where
  "parseProgram fuel ts =
     pbind (expect VOID_APP ts) (\<lambda>_ ts1.
     pbind (expect STRING_LITERAL ts1) (\<lambda>appNameToken ts2.
     pbind (expect SEMICOLON ts2) (\<lambda>_ ts3.
     pbind (if check USING ts3 then
              pbind (expect STYLE (tok_advance ts3)) (\<lambda>_ ts4.
              pbind (expect STRING_LITERAL ts4) (\<lambda>styleToken ts5.
              pbind (expect SEMICOLON ts5) (\<lambda>_ ts6.
              preturn (Some (tok_value styleToken)) ts6)))
            else preturn None ts3) (\<lambda>sty ts7.
     pbind (until_loop VOID_END (parseTopLevel fuel) fuel [] ts7) (\<lambda>nodes ts8.
     pbind (if check VOID_END ts8 then expect SEMICOLON (tok_advance ts8)
            else preturn (tok_current ts8) ts8) (\<lambda>_ ts9.
     preturn \<lparr>prog_appName = tok_value appNameToken, prog_style = sty, prog_body = nodes\<rparr> ts9))))))"

text \<open>
  \<^verbatim>\<open>parse\<close>: every round of a loop and every level of nesting consumes a token first, so
  a budget of one more than the number of tokens is never used up.
\<close>

definition parse :: "token list \<Rightarrow> (parse_error + programnode) option" where
  "parse ts =
     (case parseProgram (Suc (length ts)) ts of
        None \<Rightarrow> None
      | Some (Inl e) \<Rightarrow> Some (Inl e)
      | Some (Inr (program, _)) \<Rightarrow> Some (Inr program))"

section \<open>Running a source text\<close>

text \<open>
  \<^verbatim>\<open>runFile\<close> after the source was read and cut at \<^verbatim>\<open>@VoidEnd;\<close>: lexer, parser,
  interpreter. The result is the output written and how the run ended; \<open>None\<close> means
  the parser's budget ran out.
\<close>

datatype run_end =
    Finished
  | LexerFailed lexer_error
  | ParserFailed parse_error
  | InterpreterFailed error

definition parse_source :: "string \<Rightarrow> (run_end + programnode) option" where
  "parse_source source =
     (case tokenize source of
        Inl e \<Rightarrow> Some (Inl (LexerFailed e))
      | Inr tokens \<Rightarrow>
          (case parse tokens of
             None \<Rightarrow> None
           | Some (Inl e) \<Rightarrow> Some (Inl (ParserFailed e))
           | Some (Inr program) \<Rightarrow> Some (Inr program)))"

definition run_source :: "string \<Rightarrow> (nat \<Rightarrow> string) \<Rightarrow> (nat \<Rightarrow> nat) \<Rightarrow> (output_event list \<times> run_end) option" where
  "run_source source inp rnd =
     (case parse_source source of
        None \<Rightarrow> None
      | Some (Inl failure) \<Rightarrow> Some ([], failure)
      | Some (Inr program) \<Rightarrow>
          (case execute program (initial_state inp rnd) of
             (Inl e, st) \<Rightarrow> Some (stdout st, InterpreterFailed e)
           | (Inr _, st) \<Rightarrow> Some (stdout st, Finished)))"

section \<open>Properties of the environment\<close>

lemma env_get_fails_iff:
  "(\<exists>e. env_get env name = Inl e) \<longleftrightarrow> (\<forall>m \<in> set (chain env). m name = None)"
  by (induction env) (auto split: option.splits)

lemma env_get_error: "env_get env name = Inl e \<Longrightarrow> e = RuntimeError (NotDefined name)"
  by (induction env) (auto split: option.splits)

lemma env_get_nearest:
  "env_get env name = Inr var \<Longrightarrow>
   \<exists>i. i < length (chain env) \<and> (\<forall>j<i. (chain env ! j) name = None) \<and>
       (chain env ! i) name = Some var"
proof (induction env)
  case (Environment vars par)
  show ?case
  proof (cases "vars name")
    case (Some var')
    with Environment.prems show ?thesis
      by (intro exI[of _ 0]) auto
  next
    case None
    with Environment.prems obtain p where par: "par = Some p" and gp: "env_get p name = Inr var"
      by (auto split: option.splits)
    have "p \<in> set_option par" using par by simp
    from Environment.IH[OF this gp] obtain i where
      i: "i < length (chain p)" "\<forall>j<i. (chain p ! j) name = None" "(chain p ! i) name = Some var"
      by blast
    show ?thesis
      using None par i by (intro exI[of _ "Suc i"]) (auto simp: less_Suc_eq_0_disj)
  qed
qed

lemma env_set_fails_iff:
  "(\<exists>e. env_set env name v = Inl e) \<longleftrightarrow> (\<forall>m \<in> set (chain env). m name = None)"
  by (induction env) (fastforce split: option.splits sum.splits)

lemma env_set_error: "env_set env name v = Inl e \<Longrightarrow> e = RuntimeError (NotDefined name)"
  by (induction env arbitrary: e) (auto split: option.splits sum.splits)

lemma env_set_nearest:
  "env_set env name v = Inr env' \<Longrightarrow>
   \<exists>i var. i < length (chain env) \<and> (\<forall>j<i. (chain env ! j) name = None) \<and>
     (chain env ! i) name = Some var \<and>
     chain env' = (chain env)[i := (chain env ! i)(name \<mapsto> var\<lparr>var_value := v\<rparr>)]"
proof (induction env arbitrary: env')
  case (Environment vars par)
  show ?case
  proof (cases "vars name")
    case (Some var)
    with Environment.prems show ?thesis
      by (intro exI[of _ 0] exI[of _ var]) (auto split: option.splits simp: fun_upd_def)
  next
    case None
    with Environment.prems obtain p p' where par: "par = Some p"
      and sp: "env_set p name v = Inr p'" and env': "env' = Environment vars (Some p')"
      by (auto split: option.splits sum.splits)
    have "p \<in> set_option par" using par by simp
    from Environment.IH[OF this sp] obtain i var where
      i: "i < length (chain p)" "\<forall>j<i. (chain p ! j) name = None"
         "(chain p ! i) name = Some var"
         "chain p' = (chain p)[i := (chain p ! i)(name \<mapsto> var\<lparr>var_value := v\<rparr>)]"
      by blast
    show ?thesis
      using None par env' i
      by (intro exI[of _ "Suc i"] exI[of _ var]) (auto simp: less_Suc_eq_0_disj fun_upd_def)
  qed
qed

text \<open>
  Claim C8. \<^verbatim>\<open>define\<close> fails exactly when the name is bound in the scope it is called on
  (its ancestors are never consulted) and otherwise binds the name there; \<^verbatim>\<open>get\<close> and
  \<^verbatim>\<open>set\<close> walk the parent chain and fail exactly when no scope of the chain binds the
  name; \<^verbatim>\<open>get\<close> returns the binding of the nearest scope that has one, and \<^verbatim>\<open>set\<close>
  replaces the value of that nearest binding (its declared type and every other scope stay
  as they were). Every failure is a \<^verbatim>\<open>RuntimeError\<close>.
\<close>

theorem environment_define_get_set:
  "((\<exists>e. env_define env name ty v = Inl e) \<longleftrightarrow> variables env name \<noteq> None) \<and>
   (variables env name \<noteq> None \<longrightarrow>
      env_define env name ty v = Inl (RuntimeError (AlreadyDefined name))) \<and>
   (variables env name = None \<longrightarrow>
      env_define env name ty v =
        Inr (Environment ((variables env)(name \<mapsto> \<lparr>var_type = ty, var_value = v\<rparr>)) (parent env))) \<and>
   ((\<exists>e. env_get env name = Inl e) \<longleftrightarrow> (\<forall>m \<in> set (chain env). m name = None)) \<and>
   ((\<exists>e. env_set env name v = Inl e) \<longleftrightarrow> (\<forall>m \<in> set (chain env). m name = None)) \<and>
   (\<forall>e. env_get env name = Inl e \<or> env_set env name v = Inl e \<longrightarrow>
      e = RuntimeError (NotDefined name)) \<and>
   (\<forall>var. env_get env name = Inr var \<longrightarrow>
      (\<exists>i. i < length (chain env) \<and> (\<forall>j<i. (chain env ! j) name = None) \<and>
           (chain env ! i) name = Some var)) \<and>
   (\<forall>env'. env_set env name v = Inr env' \<longrightarrow>
      (\<exists>i var. i < length (chain env) \<and> (\<forall>j<i. (chain env ! j) name = None) \<and>
         (chain env ! i) name = Some var \<and>
         chain env' = (chain env)[i := (chain env ! i)(name \<mapsto> var\<lparr>var_value := v\<rparr>)]))"
proof (intro conjI allI impI)
  show "(\<exists>e. env_define env name ty v = Inl e) \<longleftrightarrow> variables env name \<noteq> None"
    by (simp add: env_define_def)
  show "(\<exists>e. env_get env name = Inl e) \<longleftrightarrow> (\<forall>m \<in> set (chain env). m name = None)"
    by (rule env_get_fails_iff)
  show "(\<exists>e. env_set env name v = Inl e) \<longleftrightarrow> (\<forall>m \<in> set (chain env). m name = None)"
    by (rule env_set_fails_iff)
next
  assume "variables env name \<noteq> None"
  then show "env_define env name ty v = Inl (RuntimeError (AlreadyDefined name))"
    by (simp add: env_define_def)
next
  assume "variables env name = None"
  then show "env_define env name ty v =
      Inr (Environment ((variables env)(name \<mapsto> \<lparr>var_type = ty, var_value = v\<rparr>)) (parent env))"
    by (simp add: env_define_def)
next
  fix e assume "env_get env name = Inl e \<or> env_set env name v = Inl e"
  then show "e = RuntimeError (NotDefined name)"
    using env_get_error env_set_error by blast
next
  fix var assume "env_get env name = Inr var"
  then show "\<exists>i. i < length (chain env) \<and> (\<forall>j<i. (chain env ! j) name = None) \<and>
           (chain env ! i) name = Some var"
    by (rule env_get_nearest)
next
  fix env' assume "env_set env name v = Inr env'"
  then show "\<exists>i var. i < length (chain env) \<and> (\<forall>j<i. (chain env ! j) name = None) \<and>
         (chain env ! i) name = Some var \<and>
         chain env' = (chain env)[i := (chain env ! i)(name \<mapsto> var\<lparr>var_value := v\<rparr>)]"
    by (rule env_set_nearest)
qed

text \<open>
  The theorem at a two-scope chain: \<open>x\<close> is bound in the outer scope only, so \<^verbatim>\<open>define\<close>
  of \<open>x\<close> in the inner scope succeeds, \<^verbatim>\<open>get\<close> finds the outer binding, and
  \<^verbatim>\<open>set\<close> succeeds on it.
\<close>

theorem environment_define_get_set_witness:
  "variables (Environment Map.empty
       (Some (Environment [''x'' \<mapsto> \<lparr>var_type = ''int'', var_value = VNum 1\<rparr>] None))) ''x'' = None \<and>
   env_define (Environment Map.empty
       (Some (Environment [''x'' \<mapsto> \<lparr>var_type = ''int'', var_value = VNum 1\<rparr>] None)))
     ''x'' ''bool'' (VBool True) =
     Inr (Environment [''x'' \<mapsto> \<lparr>var_type = ''bool'', var_value = VBool True\<rparr>]
       (Some (Environment [''x'' \<mapsto> \<lparr>var_type = ''int'', var_value = VNum 1\<rparr>] None))) \<and>
   env_get (Environment Map.empty
       (Some (Environment [''x'' \<mapsto> \<lparr>var_type = ''int'', var_value = VNum 1\<rparr>] None))) ''x'' =
     Inr \<lparr>var_type = ''int'', var_value = VNum 1\<rparr> \<and>
   \<not> (\<exists>e. env_set (Environment Map.empty
       (Some (Environment [''x'' \<mapsto> \<lparr>var_type = ''int'', var_value = VNum 1\<rparr>] None)))
     ''x'' (VBool True) = Inl e)"
  using environment_define_get_set
    [of "Environment Map.empty
       (Some (Environment [''x'' \<mapsto> \<lparr>var_type = ''int'', var_value = VNum 1\<rparr>] None))"
     "''x''" "''bool''" "VBool True"]
  by simp

section \<open>Properties of the loops\<close>








section \<open>Properties of the conversions\<close>



















section \<open>Properties of the dict methods\<close>

lemma findDictKey_from_found:
  "i < length ks \<Longrightarrow> \<forall>j<i. areEqual h (ks ! j) key = Inr False \<Longrightarrow>
   areEqual h (ks ! i) key = Inr True \<Longrightarrow> findDictKey_from h ks key i0 = Inr (i0 + int i)"
proof (induction ks arbitrary: i i0)
  case Nil
  then show ?case by simp
next
  case (Cons k ks)
  show ?case
  proof (cases i)
    case 0
    with Cons.prems show ?thesis by simp
  next
    case (Suc i')
    have k: "areEqual h k key = Inr False" using Cons.prems(2) Suc by auto
    have "findDictKey_from h ks key (i0 + 1) = Inr (i0 + 1 + int i')"
    proof (rule Cons.IH)
      show "i' < length ks" using Cons.prems(1) Suc by simp
      show "\<forall>j<i'. areEqual h (ks ! j) key = Inr False"
        using Cons.prems(2) Suc by auto
      show "areEqual h (ks ! i') key = Inr True" using Cons.prems(3) Suc by simp
    qed
    then show ?thesis using k Suc by simp
  qed
qed

lemma findDictKey_from_absent:
  "\<forall>j<length ks. areEqual h (ks ! j) key = Inr False \<Longrightarrow> findDictKey_from h ks key i0 = Inr (- 1)"
proof (induction ks arbitrary: i0)
  case Nil
  then show ?case by simp
next
  case (Cons k ks)
  have k: "areEqual h k key = Inr False" using Cons.prems by auto
  have "findDictKey_from h ks key (i0 + 1) = Inr (- 1)"
    using Cons.prems by (intro Cons.IH) auto
  then show ?case using k by simp
qed

lemma add_dict_step:
  assumes "env_get (cur_env st) x = Inr var" "var_value var = VDict a"
    "executeNode karg st = (Inr key, st1)" "executeNode varg st1 = (Inr v, st2)"
    "findDictKey (store st2) (dicts (store st2) a) key = Inr idx"
    "idx = - 1 \<or> nat idx < length (dict_values (dicts (store st2) a))"
  shows "executeNode (MethodCallNode x ''add'' ''dict'' [karg, varg]) st =
     (Inr VNull,
      st2\<lparr>store := (store st2)\<lparr>dicts := (dicts (store st2))
        (a := (if idx \<noteq> - 1
               then (dicts (store st2) a)\<lparr>dict_values := (dict_values (dicts (store st2) a))[nat idx := v]\<rparr>
               else \<lparr>dict_keys = dict_keys (dicts (store st2) a) @ [key],
                     dict_values = dict_values (dicts (store st2) a) @ [v]\<rparr>))\<rparr>\<rparr>)"
  using assms by auto


text \<open>
  Claim C3. Let \<open>x\<close> be a variable that holds a dict, and let the key and value expressions
  of \<^verbatim>\<open>x.add:dict(k:v)\<close> evaluate to \<open>key\<close> and \<open>v\<close>. If position \<open>i\<close> is the first
  whose key is equal to \<open>key\<close> under \<^verbatim>\<open>areEqual\<close>, the call replaces the value at
  position \<open>i\<close> and leaves the keys and every other value where they are; if no key is
  equal to \<open>key\<close>, the call appends \<open>key\<close> and \<open>v\<close> at the end.
\<close>

theorem add_dict_replaces_in_place_or_appends:
  assumes "env_get (cur_env st) x = Inr var" and "var_value var = VDict a"
    and "executeNode karg st = (Inr key, st1)" and "executeNode varg st1 = (Inr v, st2)"
    and "length (dict_values (dicts (store st2) a)) = length (dict_keys (dicts (store st2) a))"
  shows "(\<forall>i < length (dict_keys (dicts (store st2) a)).
           (\<forall>j<i. areEqual (store st2) (dict_keys (dicts (store st2) a) ! j) key = Inr False) \<and>
           areEqual (store st2) (dict_keys (dicts (store st2) a) ! i) key = Inr True \<longrightarrow>
           executeNode (MethodCallNode x ''add'' ''dict'' [karg, varg]) st =
             (Inr VNull,
              st2\<lparr>store := (store st2)\<lparr>dicts := (dicts (store st2))
                (a := \<lparr>dict_keys = dict_keys (dicts (store st2) a),
                       dict_values = (dict_values (dicts (store st2) a))[i := v]\<rparr>)\<rparr>\<rparr>)) \<and>
         ((\<forall>j < length (dict_keys (dicts (store st2) a)).
             areEqual (store st2) (dict_keys (dicts (store st2) a) ! j) key = Inr False) \<longrightarrow>
           executeNode (MethodCallNode x ''add'' ''dict'' [karg, varg]) st =
             (Inr VNull,
              st2\<lparr>store := (store st2)\<lparr>dicts := (dicts (store st2))
                (a := \<lparr>dict_keys = dict_keys (dicts (store st2) a) @ [key],
                       dict_values = dict_values (dicts (store st2) a) @ [v]\<rparr>)\<rparr>\<rparr>))"
proof (intro conjI allI impI)
  fix i
  assume i: "i < length (dict_keys (dicts (store st2) a))"
    and eq: "(\<forall>j<i. areEqual (store st2) (dict_keys (dicts (store st2) a) ! j) key = Inr False) \<and>
           areEqual (store st2) (dict_keys (dicts (store st2) a) ! i) key = Inr True"
  have f: "findDictKey (store st2) (dicts (store st2) a) key = Inr (int i)"
    using findDictKey_from_found[of i "dict_keys (dicts (store st2) a)" "store st2" key 0] i eq
    by (simp add: findDictKey_def)
  have r: "int i = - 1 \<or> nat (int i) < length (dict_values (dicts (store st2) a))"
    using i assms(5) by simp
  have d: "(dicts (store st2) a)\<lparr>dict_values := (dict_values (dicts (store st2) a))[i := v]\<rparr> =
      \<lparr>dict_keys = dict_keys (dicts (store st2) a),
       dict_values = (dict_values (dicts (store st2) a))[i := v]\<rparr>"
    by simp
  show "executeNode (MethodCallNode x ''add'' ''dict'' [karg, varg]) st =
             (Inr VNull,
              st2\<lparr>store := (store st2)\<lparr>dicts := (dicts (store st2))
                (a := \<lparr>dict_keys = dict_keys (dicts (store st2) a),
                       dict_values = (dict_values (dicts (store st2) a))[i := v]\<rparr>)\<rparr>\<rparr>)"
    using add_dict_step[OF assms(1-4) f r] d by simp
next
  assume "\<forall>j < length (dict_keys (dicts (store st2) a)).
             areEqual (store st2) (dict_keys (dicts (store st2) a) ! j) key = Inr False"
  then have f: "findDictKey (store st2) (dicts (store st2) a) key = Inr (- 1)"
    using findDictKey_from_absent[of "dict_keys (dicts (store st2) a)" "store st2" key 0]
    by (simp add: findDictKey_def)
  show "executeNode (MethodCallNode x ''add'' ''dict'' [karg, varg]) st =
             (Inr VNull,
              st2\<lparr>store := (store st2)\<lparr>dicts := (dicts (store st2))
                (a := \<lparr>dict_keys = dict_keys (dicts (store st2) a) @ [key],
                       dict_values = dict_values (dicts (store st2) a) @ [v]\<rparr>)\<rparr>\<rparr>)"
    using add_dict_step[OF assms(1-4) f] by simp
qed


text \<open>
  The theorem on the dict \<^verbatim>\<open>{'a':1, 'b':2}\<close>: \<^verbatim>\<open>D.add:dict('b':9)\<close> replaces the
  second value in place, \<^verbatim>\<open>D.add:dict('c':3)\<close> appends.
\<close>

theorem add_dict_replaces_in_place_or_appends_witness:
  "dicts (store (snd (executeNode
       (MethodCallNode ''D'' ''add'' ''dict'' [StringLiteralNode ''b'', NumberLiteralNode (Whole 9)])
       (snd (executeNode
          (CreateVarNode ''dict'' ''D''
             (DictLiteralNode [(StringLiteralNode ''a'', NumberLiteralNode (Whole 1)),
                               (StringLiteralNode ''b'', NumberLiteralNode (Whole 2))]))
          (initial_state (\<lambda>_. []) (\<lambda>_. 0))))))) 0 =
     \<lparr>dict_keys = [VStr ''a'', VStr ''b''], dict_values = [VNum 1, VNum 9]\<rparr> \<and>
   dicts (store (snd (executeNode
       (MethodCallNode ''D'' ''add'' ''dict'' [StringLiteralNode ''c'', NumberLiteralNode (Whole 3)])
       (snd (executeNode
          (CreateVarNode ''dict'' ''D''
             (DictLiteralNode [(StringLiteralNode ''a'', NumberLiteralNode (Whole 1)),
                               (StringLiteralNode ''b'', NumberLiteralNode (Whole 2))]))
          (initial_state (\<lambda>_. []) (\<lambda>_. 0))))))) 0 =
     \<lparr>dict_keys = [VStr ''a'', VStr ''b'', VStr ''c''], dict_values = [VNum 1, VNum 2, VNum 3]\<rparr>"
proof -
  define W where "W = snd (executeNode
          (CreateVarNode ''dict'' ''D''
             (DictLiteralNode [(StringLiteralNode ''a'', NumberLiteralNode (Whole 1)),
                               (StringLiteralNode ''b'', NumberLiteralNode (Whole 2))]))
          (initial_state (\<lambda>_. []) (\<lambda>_. 0)))"
  have env: "env_get (cur_env W) ''D'' = Inr \<lparr>var_type = ''dict'', var_value = VDict 0\<rparr>"
    unfolding W_def
    by (simp add: initial_state_def empty_heap_def createVoidDict_def alloc_dict_def
        number_literal_def is_scalar_type_def env_define_def)
  have val: "var_value \<lparr>var_type = ''dict'', var_value = VDict 0\<rparr> = VDict 0" by simp
  have d: "dicts (store W) 0 = \<lparr>dict_keys = [VStr ''a'', VStr ''b''], dict_values = [VNum 1, VNum 2]\<rparr>"
    unfolding W_def
    by (simp add: initial_state_def empty_heap_def createVoidDict_def alloc_dict_def
        number_literal_def is_scalar_type_def env_define_def)
  have len: "length (dict_values (dicts (store W) 0)) = length (dict_keys (dicts (store W) 0))"
    by (simp add: d)
  have kb: "executeNode (StringLiteralNode ''b'') W = (Inr (VStr ''b''), W)" by simp
  have v9: "executeNode (NumberLiteralNode (Whole 9)) W = (Inr (VNum 9), W)"
    by (simp add: number_literal_def)
  have kc: "executeNode (StringLiteralNode ''c'') W = (Inr (VStr ''c''), W)" by simp
  have v3: "executeNode (NumberLiteralNode (Whole 3)) W = (Inr (VNum 3), W)"
    by (simp add: number_literal_def)
  have eqs: "areEqual (store W) (VStr ''a'') (VStr ''b'') = Inr False"
    "areEqual (store W) (VStr ''b'') (VStr ''b'') = Inr True"
    "areEqual (store W) (VStr ''a'') (VStr ''c'') = Inr False"
    "areEqual (store W) (VStr ''b'') (VStr ''c'') = Inr False"
    by (simp_all add: areEqual_def js_typeof_def)
  have first: "(\<forall>j<1. areEqual (store W) (dict_keys (dicts (store W) 0) ! j) (VStr ''b'') = Inr False) \<and>
      areEqual (store W) (dict_keys (dicts (store W) 0) ! 1) (VStr ''b'') = Inr True"
    by (simp add: d eqs)
  have none: "\<forall>j < length (dict_keys (dicts (store W) 0)).
      areEqual (store W) (dict_keys (dicts (store W) 0) ! j) (VStr ''c'') = Inr False"
    by (simp add: d eqs less_Suc_eq)
  have one: "1 < length (dict_keys (dicts (store W) 0))" by (simp add: d)
  from add_dict_replaces_in_place_or_appends[OF env val kb v9 len] one first
  have r1: "executeNode (MethodCallNode ''D'' ''add'' ''dict'' [StringLiteralNode ''b'', NumberLiteralNode (Whole 9)]) W =
      (Inr VNull,
       W\<lparr>store := (store W)\<lparr>dicts := (dicts (store W))
         (0 := \<lparr>dict_keys = dict_keys (dicts (store W) 0),
                dict_values = (dict_values (dicts (store W) 0))[1 := VNum 9]\<rparr>)\<rparr>\<rparr>)"
    by blast
  from add_dict_replaces_in_place_or_appends[OF env val kc v3 len] none
  have r2: "executeNode (MethodCallNode ''D'' ''add'' ''dict'' [StringLiteralNode ''c'', NumberLiteralNode (Whole 3)]) W =
      (Inr VNull,
       W\<lparr>store := (store W)\<lparr>dicts := (dicts (store W))
         (0 := \<lparr>dict_keys = dict_keys (dicts (store W) 0) @ [VStr ''c''],
                dict_values = dict_values (dicts (store W) 0) @ [VNum 3]\<rparr>)\<rparr>\<rparr>)"
    by blast
  show ?thesis
    unfolding W_def[symmetric] by (simp only: r1 r2 snd_conv) (simp add: d)
qed

section \<open>Properties of the lexer\<close>











section \<open>Properties of the operators\<close>

lemma toNumber_null_list_dict:
  "v = VNull \<or> (\<exists>a. v = VList a) \<or> (\<exists>a. v = VDict a) \<Longrightarrow> toNumber v = Inr 0"
  by (auto simp: toNumber_def)

lemma toNumber2_cong:
  "toNumber v = toNumber v' \<Longrightarrow> toNumber2 v w = toNumber2 v' w \<and> toNumber2 w v = toNumber2 w v'"
  by (simp add: toNumber2_def split: sum.splits)

lemma numeric_operator_left:
  assumes "toNumber v = toNumber v'"
    and "operator \<in> {''-'', ''*'', ''/'', ''%'', ''**'', ''<'', ''>'', ''<='', ''>=''}"
  shows "binaryOperator operator v w h = binaryOperator operator v' w h"
proof -
  have t: "toNumber2 v w = toNumber2 v' w" using assms(1) by (simp add: toNumber2_def)
  note a = assms(1)
  from assms(2) consider "operator = ''-''" | "operator = ''*''" | "operator = ''/''" | "operator = ''%''"
    | "operator = ''**''" | "operator = ''<''" | "operator = ''>''" | "operator = ''<=''" | "operator = ''>=''"
    by auto
  then show ?thesis
    using a by cases (simp_all add: binaryOperator_def t split: sum.splits)
qed

lemma numeric_operator_right:
  assumes "toNumber v = toNumber v'"
    and "operator \<in> {''-'', ''*'', ''/'', ''%'', ''**'', ''<'', ''>'', ''<='', ''>=''}"
  shows "binaryOperator operator w v h = binaryOperator operator w v' h"
proof -
  have t: "toNumber2 w v = toNumber2 w v'" using assms(1) by (simp add: toNumber2_def split: sum.splits)
  note a = assms(1)
  from assms(2) consider "operator = ''-''" | "operator = ''*''" | "operator = ''/''" | "operator = ''%''"
    | "operator = ''**''" | "operator = ''<''" | "operator = ''>''" | "operator = ''<=''" | "operator = ''>=''"
    by auto
  then show ?thesis
    using a by cases (simp_all add: binaryOperator_def t split: sum.splits)
qed

lemma null_less_one: "binaryOperator ''<'' VNull (VNum 1) h = (Inr (VBool True), h)"
  by (simp add: binaryOperator_def toNumber2_def toNumber_def)


text \<open>
  Claim C10. \<^verbatim>\<open>toNumber\<close> of \<^verbatim>\<open>null\<close>, of an array and of a dict is 0, without an
  error. The operators \<^verbatim>\<open>- * / % ** < > <= >=\<close> read their operands through
  \<^verbatim>\<open>toNumber\<close> only, so with such an operand on either side they behave as with the
  number 0 there; \<^verbatim>\<open>null < 1\<close> is \<^verbatim>\<open>true\<close>. \<^verbatim>\<open>executeBinaryExpr\<close> applies the
  operator to the values of its two operand expressions.
\<close>

theorem null_list_dict_coerce_to_zero:
  "(v = VNull \<or> (\<exists>a. v = VList a) \<or> (\<exists>a. v = VDict a) \<longrightarrow>
      toNumber v = Inr 0 \<and>
      (operator \<in> {''-'', ''*'', ''/'', ''%'', ''**'', ''<'', ''>'', ''<='', ''>=''} \<longrightarrow>
         binaryOperator operator v w h = binaryOperator operator (VNum 0) w h \<and>
         binaryOperator operator w v h = binaryOperator operator w (VNum 0) h)) \<and>
   binaryOperator ''<'' VNull (VNum 1) h = (Inr (VBool True), h) \<and>
   (executeNode left st = (Inr v, st1) \<and> executeNode right st1 = (Inr w, st2) \<longrightarrow>
      executeNode (BinaryExprNode operator left right) st =
        (case binaryOperator operator v w (store st2) of (res, h') \<Rightarrow> (res, st2\<lparr>store := h'\<rparr>)))"
proof (intro conjI impI)
  assume a: "v = VNull \<or> (\<exists>a. v = VList a) \<or> (\<exists>a. v = VDict a)"
  then show z: "toNumber v = Inr 0" by (rule toNumber_null_list_dict)
  have z': "toNumber v = toNumber (VNum 0)" using z by (simp add: toNumber_def)
  assume op: "operator \<in> {''-'', ''*'', ''/'', ''%'', ''**'', ''<'', ''>'', ''<='', ''>=''}"
  show "binaryOperator operator v w h = binaryOperator operator (VNum 0) w h"
    using z' op by (rule numeric_operator_left)
  show "binaryOperator operator w v h = binaryOperator operator w (VNum 0) h"
    using z' op by (rule numeric_operator_right)
next
  show "binaryOperator ''<'' VNull (VNum 1) h = (Inr (VBool True), h)" by (rule null_less_one)
next
  assume "executeNode left st = (Inr v, st1) \<and> executeNode right st1 = (Inr w, st2)"
  then show "executeNode (BinaryExprNode operator left right) st =
        (case binaryOperator operator v w (store st2) of (res, h') \<Rightarrow> (res, st2\<lparr>store := h'\<rparr>))"
    by simp
qed

text \<open>The theorem at \<^verbatim>\<open>[] < 1\<close> and \<^verbatim>\<open>5 - {}\<close>.\<close>

theorem null_list_dict_coerce_to_zero_witness:
  "toNumber (VList 0) = Inr 0 \<and>
   binaryOperator ''<'' (VList 0) (VNum 1) empty_heap = (Inr (VBool True), empty_heap) \<and>
   binaryOperator ''-'' (VNum 5) (VDict 0) empty_heap = (Inr (VNum 5), empty_heap) \<and>
   fst (executeNode (BinaryExprNode ''<'' (ListLiteralNode []) (NumberLiteralNode (Whole 1)))
          (initial_state (\<lambda>_. []) (\<lambda>_. 0))) = Inr (VBool True)"
proof -
  let ?st = "initial_state (\<lambda>_. []) (\<lambda>_. 0)"
  let ?st1 = "?st\<lparr>store := snd (alloc_list [] (store ?st))\<rparr>"
  have l: "executeNode (ListLiteralNode []) ?st = (Inr (VList 0), ?st1)"
    by (simp add: alloc_list_def initial_state_def empty_heap_def)
  have r: "executeNode (NumberLiteralNode (Whole 1)) ?st1 = (Inr (VNum 1), ?st1)"
    by (simp add: number_literal_def)
  have ops: "''<'' \<in> {''-'', ''*'', ''/'', ''%'', ''**'', ''<'', ''>'', ''<='', ''>=''}"
    "''-'' \<in> {''-'', ''*'', ''/'', ''%'', ''**'', ''<'', ''>'', ''<='', ''>=''}"
    by simp_all
  have zero: "binaryOperator ''<'' (VNum 0) (VNum 1) h = (Inr (VBool True), h)"
    "binaryOperator ''-'' (VNum 5) (VNum 0) h = (Inr (VNum 5), h)" for h
    by (simp_all add: binaryOperator_def toNumber2_def toNumber_def num_result_def max_safe_def)
  note t1 = null_list_dict_coerce_to_zero
    [where v = "VList 0" and operator = "''<''" and w = "VNum 1" and h = empty_heap
       and left = "ListLiteralNode []" and right = "NumberLiteralNode (Whole 1)"
       and st = ?st and ?st1.0 = ?st1 and ?st2.0 = ?st1]
  note t2 = null_list_dict_coerce_to_zero
    [where v = "VDict 0" and operator = "''-''" and w = "VNum 5" and h = empty_heap]
  note t3 = null_list_dict_coerce_to_zero
    [where v = "VList 0" and operator = "''<''" and w = "VNum 1" and h = "store ?st1"]
  have a: "toNumber (VList 0) = Inr 0" using t1 by blast
  have b: "binaryOperator ''<'' (VList 0) (VNum 1) empty_heap = (Inr (VBool True), empty_heap)"
    using t1 ops(1) zero(1)[of empty_heap] by simp
  have c: "binaryOperator ''-'' (VNum 5) (VDict 0) empty_heap = (Inr (VNum 5), empty_heap)"
    using t2 ops(2) zero(2)[of empty_heap] by simp
  have d0: "binaryOperator ''<'' (VList 0) (VNum 1) (store ?st1) = (Inr (VBool True), store ?st1)"
    using t3 ops(1) zero(1)[of "store ?st1"] by simp
  have d: "fst (executeNode (BinaryExprNode ''<'' (ListLiteralNode []) (NumberLiteralNode (Whole 1))) ?st) =
      Inr (VBool True)"
    using t1 l r d0 by simp
  show ?thesis using a b c d by blast
qed

lemma logical_and:
  "executeNode (BinaryExprNode ''&&'' left right) st =
     (case executeNode left st of
        (Inl e, st1) \<Rightarrow> (Inl e, st1)
      | (Inr l, st1) \<Rightarrow>
          (case executeNode right st1 of
             (Inl e, st2) \<Rightarrow> (Inl e, st2)
           | (Inr r, st2) \<Rightarrow> (Inr (VBool (isTruthy (store st2) l \<and> isTruthy (store st2) r)), st2)))"
  by (simp add: binaryOperator_def split: prod.splits sum.splits)

lemma logical_or:
  "executeNode (BinaryExprNode ''||'' left right) st =
     (case executeNode left st of
        (Inl e, st1) \<Rightarrow> (Inl e, st1)
      | (Inr l, st1) \<Rightarrow>
          (case executeNode right st1 of
             (Inl e, st2) \<Rightarrow> (Inl e, st2)
           | (Inr r, st2) \<Rightarrow> (Inr (VBool (isTruthy (store st2) l \<or> isTruthy (store st2) r)), st2)))"
  by (simp add: binaryOperator_def split: prod.splits sum.splits)


text \<open>
  Claim C5. \<^verbatim>\<open>&&\<close> and \<^verbatim>\<open>||\<close> evaluate the left operand, then the right operand in the
  state the left one produced, whatever the left value is; an error of either operand ends
  the evaluation. The result is the boolean \<open>truthy(l) \<and> truthy(r)\<close>, respectively
  \<open>truthy(l) \<or> truthy(r)\<close>, in the state after both operands.
\<close>

theorem logical_operators_evaluate_both_operands:
  "executeNode (BinaryExprNode ''&&'' left right) st =
     (case executeNode left st of
        (Inl e, st1) \<Rightarrow> (Inl e, st1)
      | (Inr l, st1) \<Rightarrow>
          (case executeNode right st1 of
             (Inl e, st2) \<Rightarrow> (Inl e, st2)
           | (Inr r, st2) \<Rightarrow> (Inr (VBool (isTruthy (store st2) l \<and> isTruthy (store st2) r)), st2))) \<and>
   executeNode (BinaryExprNode ''||'' left right) st =
     (case executeNode left st of
        (Inl e, st1) \<Rightarrow> (Inl e, st1)
      | (Inr l, st1) \<Rightarrow>
          (case executeNode right st1 of
             (Inl e, st2) \<Rightarrow> (Inl e, st2)
           | (Inr r, st2) \<Rightarrow> (Inr (VBool (isTruthy (store st2) l \<or> isTruthy (store st2) r)), st2)))"
  using logical_and[of left right st] logical_or[of left right st] by (rule conjI)

text \<open>
  The theorem at \<^verbatim>\<open>false && write('p')\<close>: the prompt is written and a line is read although
  the left operand is false.
\<close>

theorem logical_operators_evaluate_both_operands_witness:
  "executeNode (BinaryExprNode ''&&'' (BoolLiteralNode False) (WriteNode (StringLiteralNode ''p'')))
     (initial_state (\<lambda>_. ''x'') (\<lambda>_. 0)) =
   (Inr (VBool False),
    (initial_state (\<lambda>_. ''x'') (\<lambda>_. 0))\<lparr>stdout := [Prompt ''p''], stdin_pos := 1\<rparr>)"
  using logical_operators_evaluate_both_operands
    [of "BoolLiteralNode False" "WriteNode (StringLiteralNode ''p'')" "initial_state (\<lambda>_. ''x'') (\<lambda>_. 0)"]
  by (simp add: isTruthy_def stringify_def host_stack_depth_def stringify_at.simps initial_state_def)

text \<open>
  Two whole programs: the right operand of \<^verbatim>\<open>&&\<close> prompts although the left is false, and
  the right operand of \<^verbatim>\<open>||\<close> fails although the left is true.
\<close>

lemma logical_operators_example:
  "run_source ''@VoidApp 'P'; main(){ echo(false && write('left is false') == 'x'); echo(true || 1 / 0 == 1); }''
     (\<lambda>_. ''x'') rnd =
   Some ([Header ''P'', BlankLine, Prompt ''left is false'', EchoLine ''false''],
         InterpreterFailed (RuntimeError DivisionByZero))"
  by code_simp

section \<open>Whole programs\<close>



text \<open>
  Claim C2 on the code: a dict literal pushes every entry without looking for an equal key,
  so \<^verbatim>\<open>{'a':1, 'a':2}\<close> holds the key \<^verbatim>\<open>a\<close> twice; after a further \<^verbatim>\<open>add:dict\<close> of
  \<^verbatim>\<open>b\<close> the length is 3 while only two keys are distinct.
\<close>

theorem dict_literal_keeps_duplicate_keys:
  "run_source ''@VoidApp 'P'; main(){ create:dict D = {'a':1, 'a':2}; D.add:dict('b':3); echo(length(D)); echo(D); echo('a' == 'a'); }'' inp rnd =
     Some ([Header ''P'', BlankLine, EchoLine ''3'', EchoLine ''{a:1, a:2, b:3}'', EchoLine ''true'', BlankLine, Footer ''P''],
           Finished)"
  by code_simp

end
